theory Spec2Isabelle
  imports Main "HOL-Library.Word"
begin

section \<open>The data layer: tables and their constraints\<close>

text \<open>
  The SQL schema (\<^verbatim>\<open>CREATE TABLE profiles / swipes / matches / messages\<close>) is modelled
  as lists of rows. A \<^verbatim>\<open>uuid\<close> is a 128-bit value; PostgreSQL orders uuids as unsigned
  byte strings, which is the order of \<^typ>\<open>128 word\<close>. A \<^verbatim>\<open>timestamptz\<close> is a count of
  microseconds. Text is a sequence of UTF-16 code units, as the client sees it.

  Row-level security. The app's statements run as role \<^verbatim>\<open>authenticated\<close>, with
  \<^verbatim>\<open>auth.uid()\<close> the signed-in user. The app inserts a swipe with \<^verbatim>\<open>user_id: user.id\<close>, so
  \<^verbatim>\<open>auth.uid()\<close> is the row's \<^verbatim>\<open>user_id\<close> and the \<^verbatim>\<open>INSERT\<close> policy of \<^verbatim>\<open>swipes\<close>
  (\<^verbatim>\<open>auth.uid() = user_id\<close>) admits it. A trigger function with the rights of its caller
  reads and writes under the policies of that user; a \<^verbatim>\<open>SECURITY DEFINER\<close> function and
  the statements of the table owner are not subject to them.
\<close>

type_synonym uuid = "128 word"
type_synonym timestamptz = int
type_synonym js_string = "16 word list"

record profile =
  p_id :: uuid
  name :: js_string
  bio :: js_string
  skills :: "js_string list"
  interests :: "js_string list"
  github_url :: js_string
  portfolio_url :: js_string
  photo_url :: js_string

record swipe =
  s_id :: uuid
  user_id :: uuid
  target_user_id :: uuid
  is_like :: bool
  s_created_at :: timestamptz

record match =
  m_id :: uuid
  user1_id :: uuid
  user2_id :: uuid
  m_created_at :: timestamptz

record message =
  msg_id :: uuid
  match_id :: uuid
  sender_id :: uuid
  content :: js_string
  created_at :: timestamptz

record db =
  profiles :: "profile list"
  swipes :: "swipe list"
  matches :: "match list"

datatype sql_error =
  unique_violation | check_violation | foreign_key_violation | insufficient_privilege

text \<open>The reply to a statement: success, with the warnings raised on the way, or the
  error that aborted it.\<close>

datatype reply = Ok "sql_error list" | Error sql_error

definition init_db :: "profile list \<Rightarrow> db" where
  "init_db ps = \<lparr>profiles = ps, swipes = [], matches = []\<rparr>"

definition has_profile :: "db \<Rightarrow> uuid \<Rightarrow> bool" where
  "has_profile d u = list_ex (\<lambda>p. p_id p = u) (profiles d)"

text \<open>\<^verbatim>\<open>INSERT INTO matches (user1_id, user2_id) VALUES (...)\<close>: the \<^verbatim>\<open>CHECK (user1_id < user2_id)\<close>
  constraint, then the primary key on \<^verbatim>\<open>id\<close> (the only unique index of the table), then the
  foreign keys to \<^verbatim>\<open>profiles\<close>.\<close>

definition insert_match :: "db \<Rightarrow> match \<Rightarrow> sql_error + db" where
  "insert_match d m =
     (if \<not> user1_id m < user2_id m then Inl check_violation
      else if list_ex (\<lambda>x. m_id x = m_id m) (matches d) then Inl unique_violation
      else if \<not> (has_profile d (user1_id m) \<and> has_profile d (user2_id m))
        then Inl foreign_key_violation
      else Inr (d\<lparr>matches := matches d @ [m]\<rparr>))"

text \<open>The same statement with \<^verbatim>\<open>ON CONFLICT DO NOTHING\<close>: a conflict on a unique index
  skips the row; every other violation is still raised.\<close>

definition insert_match_on_conflict_do_nothing :: "db \<Rightarrow> match \<Rightarrow> sql_error + db" where
  "insert_match_on_conflict_do_nothing d m =
     (if \<not> user1_id m < user2_id m then Inl check_violation
      else if list_ex (\<lambda>x. m_id x = m_id m) (matches d) then Inr d
      else if \<not> (has_profile d (user1_id m) \<and> has_profile d (user2_id m))
        then Inl foreign_key_violation
      else Inr (d\<lparr>matches := matches d @ [m]\<rparr>))"

subsection \<open>The match-derivation trigger\<close>

text \<open>\<^verbatim>\<open>SELECT 1 FROM swipes WHERE user_id = a AND target_user_id = b AND is_like = true\<close>.\<close>

definition likes :: "db \<Rightarrow> uuid \<Rightarrow> uuid \<Rightarrow> bool" where
  "likes d a b = list_ex (\<lambda>s. user_id s = a \<and> target_user_id s = b \<and> is_like s) (swipes d)"

text \<open>The row the trigger inserts: \<^verbatim>\<open>LEAST\<close> and \<^verbatim>\<open>GREATEST\<close> of the two users; \<^verbatim>\<open>id\<close> and
  \<^verbatim>\<open>created_at\<close> take their column defaults \<^verbatim>\<open>gen_random_uuid()\<close> and \<^verbatim>\<open>now()\<close>, whose values
  the environment supplies.\<close>

definition new_match :: "uuid \<Rightarrow> timestamptz \<Rightarrow> swipe \<Rightarrow> match" where
  "new_match gen now NEW =
     \<lparr>m_id = gen,
      user1_id = min (user_id NEW) (target_user_id NEW),
      user2_id = max (user_id NEW) (target_user_id NEW),
      m_created_at = now\<rparr>"

text \<open>What a statement with the rights of the signed-in user \<open>uid\<close> sees of \<^verbatim>\<open>swipes\<close>: the
  table's only \<^verbatim>\<open>SELECT\<close> policy is \<^verbatim>\<open>"Users can view their own swipes"\<close>,
  \<^verbatim>\<open>USING (auth.uid() = user_id)\<close>.\<close>

definition own_swipes :: "uuid \<Rightarrow> db \<Rightarrow> swipe list" where
  "own_swipes uid d = filter (\<lambda>s. uid = user_id s) (swipes d)"

text \<open>The \<^verbatim>\<open>INSERT\<close> policies of \<^verbatim>\<open>matches\<close> in the schema: the table has row-level security
  enabled and a \<^verbatim>\<open>SELECT\<close> policy only. A row that passes none of the \<^verbatim>\<open>INSERT\<close> policies
  is refused (SQLSTATE 42501) before any constraint is looked at.\<close>

definition matches_insert_policies :: "(uuid \<Rightarrow> match \<Rightarrow> bool) list" where
  "matches_insert_policies = []"

definition insert_match_on_conflict_do_nothing_as :: "uuid \<Rightarrow> db \<Rightarrow> match \<Rightarrow> sql_error + db" where
  "insert_match_on_conflict_do_nothing_as uid d m =
     (if \<not> list_ex (\<lambda>p. p uid m) matches_insert_policies then Inl insufficient_privilege
      else insert_match_on_conflict_do_nothing d m)"

text \<open>\<^verbatim>\<open>create_match_on_mutual_like\<close> as the schema and the complete set-up script define
  it. It runs \<^verbatim>\<open>AFTER INSERT\<close>, so the table it reads already holds \<^verbatim>\<open>NEW\<close>. It is not
  \<^verbatim>\<open>SECURITY DEFINER\<close>: it has the rights of the user who inserts the swipe, whose
  \<^verbatim>\<open>auth.uid()\<close> is \<^verbatim>\<open>NEW.user_id\<close>. An error it raises aborts the statement.\<close>

definition create_match_on_mutual_like_schema ::
  "uuid \<Rightarrow> timestamptz \<Rightarrow> db \<Rightarrow> swipe \<Rightarrow> sql_error + (sql_error list \<times> db)" where
  "create_match_on_mutual_like_schema gen now d NEW =
     (if is_like NEW then
        if list_ex (\<lambda>s. user_id s = target_user_id NEW \<and> target_user_id s = user_id NEW \<and>
                        is_like s) (own_swipes (user_id NEW) d) then
          (case insert_match_on_conflict_do_nothing_as (user_id NEW) d (new_match gen now NEW) of
             Inl e \<Rightarrow> Inl e
           | Inr d' \<Rightarrow> Inr ([], d'))
        else Inr ([], d)
      else Inr ([], d))"

text \<open>\<^verbatim>\<open>create_match_on_mutual_like\<close> as \<^verbatim>\<open>fix-matches.sql\<close> redefines it, \<^verbatim>\<open>SECURITY DEFINER\<close>:
  it reads the whole of \<^verbatim>\<open>swipes\<close> and \<^verbatim>\<open>matches\<close>, looks for the match row first and inserts
  without \<^verbatim>\<open>ON CONFLICT\<close>; the \<^verbatim>\<open>EXCEPTION WHEN OTHERS\<close> handler undoes what the block did,
  raises a warning and returns \<^verbatim>\<open>NEW\<close>.\<close>

definition match_exists :: "db \<Rightarrow> swipe \<Rightarrow> bool" where
  "match_exists d NEW =
     list_ex (\<lambda>m. user1_id m = min (user_id NEW) (target_user_id NEW) \<and>
                  user2_id m = max (user_id NEW) (target_user_id NEW)) (matches d)"

definition create_match_on_mutual_like_body ::
  "uuid \<Rightarrow> timestamptz \<Rightarrow> db \<Rightarrow> swipe \<Rightarrow> sql_error + db" where
  "create_match_on_mutual_like_body gen now d NEW =
     (if is_like NEW then
        if likes d (target_user_id NEW) (user_id NEW) then
          if \<not> match_exists d NEW then insert_match d (new_match gen now NEW)
          else Inr d
        else Inr d
      else Inr d)"

definition create_match_on_mutual_like ::
  "uuid \<Rightarrow> timestamptz \<Rightarrow> db \<Rightarrow> swipe \<Rightarrow> sql_error + (sql_error list \<times> db)" where
  "create_match_on_mutual_like gen now d NEW =
     (case create_match_on_mutual_like_body gen now d NEW of
        Inl e \<Rightarrow> Inr ([e], d)
      | Inr d' \<Rightarrow> Inr ([], d'))"

text \<open>Which of the two definitions \<^verbatim>\<open>trigger_create_match_on_mutual_like\<close> executes: the
  one the schema installs, or the one \<^verbatim>\<open>fix-matches.sql\<close> puts in its place.\<close>

datatype installed = schema_sql | fix_matches_sql

fun trigger_create_match_on_mutual_like ::
  "installed \<Rightarrow> uuid \<Rightarrow> timestamptz \<Rightarrow> db \<Rightarrow> swipe \<Rightarrow> sql_error + (sql_error list \<times> db)" where
  "trigger_create_match_on_mutual_like schema_sql = create_match_on_mutual_like_schema"
| "trigger_create_match_on_mutual_like fix_matches_sql = create_match_on_mutual_like"

subsection \<open>Swipe creation\<close>

text \<open>\<^verbatim>\<open>supabase.from('swipes').insert({user_id, target_user_id, is_like})\<close>, with the values
  the column defaults produce during the statement: \<^verbatim>\<open>gen_random_uuid()\<close> for the swipe's
  id and for the id of a match row the trigger may insert, and \<^verbatim>\<open>now()\<close>.\<close>

record swipe_insert =
  ins_user_id :: uuid
  ins_target_user_id :: uuid
  ins_is_like :: bool
  gen_swipe_id :: uuid
  gen_match_id :: uuid
  ins_now :: timestamptz

definition new_swipe :: "swipe_insert \<Rightarrow> swipe" where
  "new_swipe r =
     \<lparr>s_id = gen_swipe_id r, user_id = ins_user_id r, target_user_id = ins_target_user_id r,
      is_like = ins_is_like r, s_created_at = ins_now r\<rparr>"

text \<open>The statement, issued by the user \<^verbatim>\<open>user_id\<close> names: the primary key and
  \<^verbatim>\<open>UNIQUE(user_id, target_user_id)\<close>, the foreign keys to \<^verbatim>\<open>profiles\<close>, then the row trigger.
  A failed statement leaves the tables as they were.\<close>

definition insert_swipe :: "installed \<Rightarrow> db \<Rightarrow> swipe_insert \<Rightarrow> reply \<times> db" where
  "insert_swipe t d r =
     (let NEW = new_swipe r in
      if list_ex (\<lambda>s. s_id s = s_id NEW) (swipes d) \<or>
         list_ex (\<lambda>s. user_id s = user_id NEW \<and> target_user_id s = target_user_id NEW) (swipes d)
      then (Error unique_violation, d)
      else if \<not> (has_profile d (user_id NEW) \<and> has_profile d (target_user_id NEW))
      then (Error foreign_key_violation, d)
      else
        (case trigger_create_match_on_mutual_like t (gen_match_id r) (ins_now r)
                (d\<lparr>swipes := swipes d @ [NEW]\<rparr>) NEW of
           Inl e \<Rightarrow> (Error e, d)
         | Inr (ws, d') \<Rightarrow> (Ok ws, d')))"

text \<open>A sequential history: each insert, with its trigger, completes before the next.\<close>

fun run :: "installed \<Rightarrow> db \<Rightarrow> swipe_insert list \<Rightarrow> db" where
  "run t d [] = d"
| "run t d (r # rs) = run t (snd (insert_swipe t d r)) rs"

text \<open>The states the data layer can reach: from empty tables, by swipe insertions under
  either trigger definition, and by direct match insertions such as the manual repair at
  the head of \<^verbatim>\<open>fix-matches.sql\<close>.\<close>

inductive reachable :: "db \<Rightarrow> bool" where
  reach_init: "reachable (init_db ps)"
| reach_swipe: "reachable d \<Longrightarrow> reachable (snd (insert_swipe t d r))"
| reach_match: "reachable d \<Longrightarrow> insert_match_on_conflict_do_nothing d m = Inr d' \<Longrightarrow> reachable d'"
| reach_match_plain: "reachable d \<Longrightarrow> insert_match d m = Inr d' \<Longrightarrow> reachable d'"


section \<open>The client\<close>

subsection \<open>Logging, error tracking and rate limiting\<close>

datatype js_error = PostgrestError sql_error | OtherError string

datatype log_level = Debug | Info | Warn | Err

text \<open>What the client emits: a \<^verbatim>\<open>logger\<close> call with its level and message, and the two
  branches of \<^verbatim>\<open>captureException\<close> (\<^verbatim>\<open>console.error\<close> when \<^verbatim>\<open>__DEV__\<close>, the Sentry call
  otherwise), each with the error and the \<^verbatim>\<open>context\<close> label.\<close>

datatype effect =
    Log log_level string
  | ConsoleError js_error string
  | SentryCaptureException js_error string

record RateLimitConfig =
  maxAttempts :: nat
  windowMs :: int

record RateLimitEntry =
  count :: nat
  resetTime :: int

record RateLimitResult =
  allowed :: bool
  retryAfter :: "int option"

text \<open>A rate-limit key is the template string \<^verbatim>\<open>`message:${user.id}`\<close> or
  \<^verbatim>\<open>`swipe:${user.id}`\<close>: its prefix and the user's id.\<close>

type_synonym rl_key = "string \<times> uuid"

text \<open>The module-level state of the client: the limiter's \<^verbatim>\<open>limits\<close> map and what has
  been emitted so far.\<close>

record client =
  limits :: "rl_key \<rightharpoonup> RateLimitEntry"
  trace :: "effect list"

definition emit :: "effect \<Rightarrow> client \<Rightarrow> client" where
  "emit x w = w\<lparr>trace := trace w @ [x]\<rparr>"

definition captureException :: "bool \<Rightarrow> js_error \<Rightarrow> string \<Rightarrow> client \<Rightarrow> client" where
  "captureException dev e ctx w =
     (if dev then emit (ConsoleError e ctx) w else emit (SentryCaptureException e ctx) w)"

definition MESSAGE :: RateLimitConfig where
  "MESSAGE = \<lparr>maxAttempts = 30, windowMs = 60 * 1000\<rparr>"

definition SWIPE :: RateLimitConfig where
  "SWIPE = \<lparr>maxAttempts = 100, windowMs = 60 * 1000\<rparr>"

text \<open>\<^verbatim>\<open>RateLimiter.check\<close>; \<^verbatim>\<open>now\<close> is \<^verbatim>\<open>Date.now()\<close> in milliseconds, and
  \<^verbatim>\<open>Math.ceil(x / 1000)\<close> on integers is \<open>- ((- x) div 1000)\<close>.\<close>

definition check ::
  "(rl_key \<rightharpoonup> RateLimitEntry) \<Rightarrow> int \<Rightarrow> rl_key \<Rightarrow> RateLimitConfig \<Rightarrow>
     RateLimitResult \<times> (rl_key \<rightharpoonup> RateLimitEntry)" where
  "check lim now key config =
     (let lim1 = (case lim key of
                    Some entry \<Rightarrow> if now \<ge> resetTime entry then lim(key := None) else lim
                  | None \<Rightarrow> lim)
      in case lim1 key of
           None \<Rightarrow>
             (\<lparr>allowed = True, retryAfter = None\<rparr>,
              lim1(key \<mapsto> \<lparr>count = 1, resetTime = now + windowMs config\<rparr>))
         | Some current \<Rightarrow>
             if count current \<ge> maxAttempts config
             then (\<lparr>allowed = False,
                    retryAfter = Some (- ((- (resetTime current - now)) div 1000))\<rparr>, lim1)
             else (\<lparr>allowed = True, retryAfter = None\<rparr>,
                   lim1(key \<mapsto> current\<lparr>count := count current + 1\<rparr>)))"

subsection \<open>The chat session\<close>

record chat =
  messages :: "message list"
  newMessage :: js_string
  loading :: bool
  sending :: bool

text \<open>The \<^verbatim>\<open>useState\<close> defaults.\<close>

definition chat_init :: chat where
  "chat_init = \<lparr>messages = [], newMessage = [], loading = True, sending = False\<rparr>"

text \<open>\<^verbatim>\<open>from('messages').select('*').eq('match_id', id).order('created_at', {ascending: true})\<close>.
  The data layer leaves the order of rows with equal \<^verbatim>\<open>created_at\<close> open; the stable sort
  here is one of the orders it may return.\<close>

definition select_messages :: "message list \<Rightarrow> uuid \<Rightarrow> message list" where
  "select_messages tbl i = sort_key created_at (filter (\<lambda>m. match_id m = i) tbl)"

text \<open>\<^verbatim>\<open>fetchMessages\<close>, given what the query returned (\<^verbatim>\<open>data\<close> is \<^verbatim>\<open>null\<close> on failure).\<close>

definition fetchMessages :: "message list option \<Rightarrow> chat \<Rightarrow> chat" where
  "fetchMessages data c =
     (case data of
        Some rows \<Rightarrow> c\<lparr>messages := rows, loading := False\<rparr>
      | None \<Rightarrow> c\<lparr>loading := False\<rparr>)"

text \<open>The handler of the realtime \<^verbatim>\<open>INSERT\<close> event: the updater passed to \<^verbatim>\<open>setMessages\<close>.\<close>

definition on_insert :: "message \<Rightarrow> chat \<Rightarrow> chat" where
  "on_insert newMsg c =
     c\<lparr>messages :=
         (if list_ex (\<lambda>m. msg_id m = msg_id newMsg) (messages c) then messages c
          else messages c @ [newMsg])\<rparr>"

text \<open>\<^verbatim>\<open>String.prototype.trim\<close> of the runtime: it strips the code units that ECMAScript
  classes as white space or line terminators from both ends.\<close>

definition is_white_space :: "16 word \<Rightarrow> bool" where
  "is_white_space c \<longleftrightarrow>
     c \<in> {0x9, 0xA, 0xB, 0xC, 0xD, 0x20, 0xA0, 0x1680, 0x2028, 0x2029, 0x202F, 0x205F,
          0x3000, 0xFEFF} \<or> (0x2000 \<le> c \<and> c \<le> 0x200A)"

definition trim :: "js_string \<Rightarrow> js_string" where
  "trim s = rev (dropWhile is_white_space (rev (dropWhile is_white_space s)))"

text \<open>\<^verbatim>\<open>messageSchema.safeParse({content, match_id: id}).success\<close>. The route parameter
  \<^verbatim>\<open>id\<close> is \<open>Some u\<close> when it is the text of the uuid \<open>u\<close> and \<open>None\<close> when it is not
  the text of a uuid.\<close>

definition messageSchema :: "js_string \<Rightarrow> uuid option \<Rightarrow> bool" where
  "messageSchema c i \<longleftrightarrow> 1 \<le> length c \<and> length c \<le> 500 \<and> i \<noteq> None"

text \<open>How \<^verbatim>\<open>await supabase.from('messages').insert(...)\<close> ends: no error, an \<^verbatim>\<open>error\<close>
  in the reply (which \<^verbatim>\<open>sendMessage\<close> throws), or an exception.\<close>

datatype insert_outcome = inserted | error_returned js_error | thrown js_error

record send_env =
  user :: "uuid option"
  route_id :: "uuid option"
  date_now :: int
  dev :: bool
  outcome :: insert_outcome

definition send_failed :: "send_env \<Rightarrow> js_string \<Rightarrow> js_error \<Rightarrow> chat \<times> client \<Rightarrow> chat \<times> client" where
  "send_failed e txt err = (\<lambda>(c, w).
     (c\<lparr>newMessage := txt, sending := False\<rparr>,
      captureException (dev e) err ''send-message''
        (emit (Log Err ''Failed to send message'') w)))"

definition sendMessage :: "send_env \<Rightarrow> chat \<times> client \<Rightarrow> chat \<times> client" where
  "sendMessage e = (\<lambda>(c, w).
     case user e of
       None \<Rightarrow> (c, w)
     | Some uid \<Rightarrow>
         if sending c then (c, w)
         else
           let txt = trim (newMessage c) in
           if txt = [] then (c, w)
           else if \<not> messageSchema txt (route_id e)
           then (c, emit (Log Warn ''Invalid message format'') w)
           else
             let (rateLimit, lim) = check (limits w) (date_now e) (''message'', uid) MESSAGE;
                 w1 = w\<lparr>limits := lim\<rparr>
             in if \<not> allowed rateLimit
                then (c, emit (Log Warn ''Message rate limit exceeded'') w1)
                else
                  let c1 = c\<lparr>newMessage := [], sending := True\<rparr>;
                      w2 = emit (Log Info ''Sending message'') w1
                  in (case outcome e of
                        inserted \<Rightarrow> (c1\<lparr>sending := False\<rparr>, w2)
                      | error_returned err \<Rightarrow> send_failed e txt err (c1, w2)
                      | thrown err \<Rightarrow> send_failed e txt err (c1, w2)))"

text \<open>The order the data model asks of the displayed messages: ascending by timestamp,
  the id breaking ties.\<close>

definition display_ordered :: "message list \<Rightarrow> bool" where
  "display_ordered ms =
     sorted_wrt (\<lambda>a b. created_at a < created_at b \<or>
                        (created_at a = created_at b \<and> msg_id a \<le> msg_id b)) ms"

subsection \<open>The match list\<close>

record profile_summary =
  ps_id :: uuid
  ps_name :: js_string
  ps_bio :: js_string
  ps_skills :: "js_string list"
  ps_photo_url :: js_string

text \<open>A row of the first query: the match columns and the two embedded profiles
  \<^verbatim>\<open>profile1:profiles!matches_user1_id_fkey(...)\<close>, \<^verbatim>\<open>profile2:profiles!matches_user2_id_fkey(...)\<close>.\<close>

record joined_match = match +
  profile1 :: "profile_summary option"
  profile2 :: "profile_summary option"

text \<open>An entry of the list the screen shows: \<^verbatim>\<open>{...match, profile, lastMessage, unreadCount}\<close>.\<close>

record match_view = joined_match +
  profile :: profile_summary
  lastMessage :: "(js_string \<times> timestamptz) option"
  unreadCount :: nat

definition embed :: "profile list \<Rightarrow> uuid \<Rightarrow> profile_summary option" where
  "embed ps u =
     map_option (\<lambda>p. \<lparr>ps_id = p_id p, ps_name = name p, ps_bio = bio p, ps_skills = skills p,
                      ps_photo_url = photo_url p\<rparr>)
       (find (\<lambda>p. p_id p = u) ps)"

text \<open>\<^verbatim>\<open>from('matches').select(...).or(`user1_id.eq.${user.id},user2_id.eq.${user.id}`)
  .order('created_at', {ascending: false})\<close>.\<close>

definition select_matches :: "db \<Rightarrow> uuid \<Rightarrow> joined_match list" where
  "select_matches d uid =
     map (\<lambda>m. \<lparr>m_id = m_id m, user1_id = user1_id m, user2_id = user2_id m,
               m_created_at = m_created_at m,
               profile1 = embed (profiles d) (user1_id m),
               profile2 = embed (profiles d) (user2_id m)\<rparr>)
       (rev (sort_key m_created_at
          (filter (\<lambda>m. user1_id m = uid \<or> user2_id m = uid) (matches d))))"

text \<open>\<^verbatim>\<open>from('messages').select('match_id, content, created_at, sender_id')
  .in('match_id', matchIds).order('created_at', {ascending: false})\<close>.\<close>

definition select_messages_in :: "message list \<Rightarrow> uuid list \<Rightarrow> message list" where
  "select_messages_in tbl ids =
     rev (sort_key created_at (filter (\<lambda>m. match_id m \<in> set ids) tbl))"

text \<open>\<^verbatim>\<open>match?.user1_id === user.id ? match?.user2_id : match?.user1_id\<close>, where \<^verbatim>\<open>match\<close> is
  what \<^verbatim>\<open>data.find\<close> returned; \<open>None\<close> is \<^verbatim>\<open>undefined\<close>.\<close>

definition otherUserId :: "uuid \<Rightarrow> joined_match option \<Rightarrow> uuid option" where
  "otherUserId uid mt =
     (case mt of
        None \<Rightarrow> None
      | Some m \<Rightarrow> Some (if user1_id m = uid then user2_id m else user1_id m))"

text \<open>\<^verbatim>\<open>map.get(k) || 0\<close>.\<close>

definition or_zero :: "nat option \<Rightarrow> nat" where
  "or_zero v = (case v of None \<Rightarrow> 0 | Some n \<Rightarrow> n)"

text \<open>The body of \<^verbatim>\<open>messagesData?.forEach\<close>, on the two maps \<^verbatim>\<open>messagesByMatch\<close> and
  \<^verbatim>\<open>unreadCountByMatch\<close>.\<close>

definition group_message ::
  "uuid \<Rightarrow> joined_match list \<Rightarrow> (uuid \<rightharpoonup> message) \<times> (uuid \<rightharpoonup> nat) \<Rightarrow> message \<Rightarrow>
     (uuid \<rightharpoonup> message) \<times> (uuid \<rightharpoonup> nat)" where
  "group_message uid data = (\<lambda>(messagesByMatch, unreadCountByMatch) msg.
     let byMatch = (if messagesByMatch (match_id msg) = None
                    then messagesByMatch(match_id msg \<mapsto> msg) else messagesByMatch);
         mt = find (\<lambda>m. m_id m = match_id msg) data
     in if Some (sender_id msg) = otherUserId uid mt
        then (byMatch,
              unreadCountByMatch(match_id msg \<mapsto> or_zero (unreadCountByMatch (match_id msg)) + 1))
        else (byMatch, unreadCountByMatch))"

definition group_messages ::
  "uuid \<Rightarrow> joined_match list \<Rightarrow> message list option \<Rightarrow>
     (uuid \<rightharpoonup> message) \<times> (uuid \<rightharpoonup> nat)" where
  "group_messages uid data messagesData =
     (case messagesData of
        None \<Rightarrow> (Map.empty, Map.empty)
      | Some msgs \<Rightarrow> foldl (group_message uid data) (Map.empty, Map.empty) msgs)"

text \<open>The string literal \<^verbatim>\<open>'Unknown'\<close> as code units.\<close>

definition js :: "string \<Rightarrow> js_string" where
  "js s = map (\<lambda>c. of_nat (of_char c)) s"

definition matchesWithProfiles ::
  "uuid \<Rightarrow> joined_match list \<Rightarrow> message list option \<Rightarrow> match_view list" where
  "matchesWithProfiles uid data messagesData =
     (let (messagesByMatch, unreadCountByMatch) = group_messages uid data messagesData
      in map (\<lambda>m.
           let other = (if user1_id m = uid then user2_id m else user1_id m);
               prof = (if user1_id m = uid then profile2 m else profile1 m)
           in \<lparr>m_id = m_id m, user1_id = user1_id m, user2_id = user2_id m,
               m_created_at = m_created_at m, profile1 = profile1 m, profile2 = profile2 m,
               profile = (case prof of
                            Some p \<Rightarrow> p
                          | None \<Rightarrow> \<lparr>ps_id = other, ps_name = js ''Unknown'', ps_bio = [],
                                     ps_skills = [], ps_photo_url = []\<rparr>),
               lastMessage = map_option (\<lambda>l. (content l, created_at l)) (messagesByMatch (m_id m)),
               unreadCount = or_zero (unreadCountByMatch (m_id m))\<rparr>) data)"

text \<open>\<^verbatim>\<open>fetchMatches\<close>: the state is the list on screen; the arguments are the signed-in
  user and what the two queries returned (the first one's \<^verbatim>\<open>data\<close> and \<^verbatim>\<open>error\<close>, the
  second one's \<^verbatim>\<open>data\<close>).\<close>

definition fetchMatches ::
  "uuid option \<Rightarrow> joined_match list option \<Rightarrow> js_error option \<Rightarrow> message list option \<Rightarrow>
     match_view list \<Rightarrow> match_view list" where
  "fetchMatches usr data err messagesData shown =
     (case usr of
        None \<Rightarrow> shown
      | Some uid \<Rightarrow>
          (case err of
             Some e \<Rightarrow> shown
           | None \<Rightarrow>
               (case data of
                  None \<Rightarrow> shown
                | Some rows \<Rightarrow> matchesWithProfiles uid rows messagesData)))"

text \<open>The participant of a match other than \<open>uid\<close>.\<close>

definition peer :: "uuid \<Rightarrow> match_view \<Rightarrow> uuid" where
  "peer uid v = (if user1_id v = uid then user2_id v else user1_id v)"

subsection \<open>The discover screen\<close>

record discover =
  deck :: "profile list"
  currentIndex :: nat
  swiping :: bool

text \<open>The two queries of \<^verbatim>\<open>fetchProfiles\<close>: the targets the user has swiped on, then up to
  twenty profiles that are neither the user's own nor among those targets (the nil uuid
  stands in for an empty list).\<close>

definition swipedIds :: "db \<Rightarrow> uuid \<Rightarrow> uuid list" where
  "swipedIds d uid = map target_user_id (filter (\<lambda>s. user_id s = uid) (swipes d))"

definition select_profiles :: "db \<Rightarrow> uuid \<Rightarrow> profile list" where
  "select_profiles d uid =
     take 20 (filter (\<lambda>p. p_id p \<noteq> uid \<and>
                          p_id p \<notin> set (if swipedIds d uid \<noteq> [] then swipedIds d uid else [0]))
               (profiles d))"

text \<open>\<^verbatim>\<open>fetchProfiles\<close>; \<open>failure\<close> is the error of a query that failed.\<close>

definition fetchProfiles ::
  "bool \<Rightarrow> uuid option \<Rightarrow> js_error option \<Rightarrow> db \<Rightarrow> discover \<times> client \<Rightarrow> discover \<times> client" where
  "fetchProfiles dv usr failure d = (\<lambda>(s, w).
     case usr of
       None \<Rightarrow> (s, w)
     | Some uid \<Rightarrow>
         (case failure of
            Some e \<Rightarrow>
              (s, captureException dv e ''fetch-profiles''
                    (emit (Log Err ''Failed to fetch profiles'') w))
          | None \<Rightarrow> (s\<lparr>deck := select_profiles d uid, currentIndex := 0\<rparr>, w)))"

text \<open>The environment of one \<^verbatim>\<open>handleSwipe\<close> call: the signed-in user, \<^verbatim>\<open>Date.now()\<close>,
  \<^verbatim>\<open>__DEV__\<close>, and on the server the installed trigger and the values of the column
  defaults.\<close>

record swipe_env =
  sw_user :: "uuid option"
  sw_date_now :: int
  sw_dev :: bool
  sw_trigger :: installed
  sw_gen_swipe_id :: uuid
  sw_gen_match_id :: uuid
  sw_now :: timestamptz

definition handleSwipe ::
  "swipe_env \<Rightarrow> bool \<Rightarrow> discover \<times> client \<times> db \<Rightarrow> discover \<times> client \<times> db" where
  "handleSwipe e isLike = (\<lambda>(s, w, d).
     case sw_user e of
       None \<Rightarrow> (s, w, d)
     | Some uid \<Rightarrow>
         if swiping s \<or> currentIndex s \<ge> length (deck s) then (s, w, d)
         else
           let (rateLimit, lim) = check (limits w) (sw_date_now e) (''swipe'', uid) SWIPE;
               w1 = w\<lparr>limits := lim\<rparr>
           in if \<not> allowed rateLimit
              then (s, emit (Log Warn ''Swipe rate limit exceeded'') w1, d)
              else
                let targetProfile = deck s ! currentIndex s;
                    w2 = emit (Log Info ''Swipe action'') w1
                in (case insert_swipe (sw_trigger e) d
                           \<lparr>ins_user_id = uid, ins_target_user_id = p_id targetProfile,
                            ins_is_like = isLike, gen_swipe_id = sw_gen_swipe_id e,
                            gen_match_id = sw_gen_match_id e, ins_now = sw_now e\<rparr> of
                      (Error err, d') \<Rightarrow>
                        (s\<lparr>swiping := False\<rparr>,
                         captureException (sw_dev e) (PostgrestError err) ''swipe''
                           (emit (Log Err ''Swipe failed'') w2), d')
                    | (Ok ws, d') \<Rightarrow>
                        (s\<lparr>currentIndex := currentIndex s + 1, swiping := False\<rparr>, w2, d')))"

subsection \<open>Notions the properties are stated with\<close>




text \<open>The rows and requests the properties are exercised on: the two users of the
  specification's scenario, profiles without content, and a swipe whose generated values
  are numbered by \<open>k\<close>.\<close>

abbreviation user_X :: uuid where "user_X \<equiv> 0x11111111111111111111111111111111"
abbreviation user_Y :: uuid where "user_Y \<equiv> 0x22222222222222222222222222222222"

abbreviation blank_profile :: "uuid \<Rightarrow> profile" where
  "blank_profile u \<equiv> \<lparr>p_id = u, name = [], bio = [], skills = [], interests = [],
     github_url = [], portfolio_url = [], photo_url = []\<rparr>"

abbreviation swipe_by :: "uuid \<Rightarrow> uuid \<Rightarrow> bool \<Rightarrow> nat \<Rightarrow> swipe_insert" where
  "swipe_by a b l k \<equiv> \<lparr>ins_user_id = a, ins_target_user_id = b, ins_is_like = l,
     gen_swipe_id = of_nat (2 * k), gen_match_id = of_nat (2 * k + 1), ins_now = int k\<rparr>"

abbreviation msg :: "nat \<Rightarrow> uuid \<Rightarrow> uuid \<Rightarrow> timestamptz \<Rightarrow> message" where
  "msg k mt sender ts \<equiv>
     \<lparr>msg_id = of_nat k, match_id = mt, sender_id = sender, content = [], created_at = ts\<rparr>"

section \<open>Properties of the data layer\<close>

lemma insert_match_sound:
  "insert_match d m = Inr d' \<Longrightarrow>
     d' = d\<lparr>matches := matches d @ [m]\<rparr> \<and> user1_id m < user2_id m"
  by (auto simp: insert_match_def split: if_splits)

lemma insert_match_ocdn_sound:
  "insert_match_on_conflict_do_nothing d m = Inr d' \<Longrightarrow>
     d' = d \<or> (d' = d\<lparr>matches := matches d @ [m]\<rparr> \<and> user1_id m < user2_id m)"
  by (auto simp: insert_match_on_conflict_do_nothing_def split: if_splits)

lemma trigger_matches:
  "trigger_create_match_on_mutual_like t g n d NEW = Inr (ws, d') \<Longrightarrow>
     profiles d' = profiles d \<and> swipes d' = swipes d \<and>
     (matches d' = matches d \<or>
      (matches d' = matches d @ [new_match g n NEW] \<and>
       user1_id (new_match g n NEW) < user2_id (new_match g n NEW)))"
  by (cases t)
     (auto simp: create_match_on_mutual_like_schema_def create_match_on_mutual_like_def
        create_match_on_mutual_like_body_def insert_match_on_conflict_do_nothing_as_def
        split: if_splits sum.splits dest!: insert_match_sound insert_match_ocdn_sound)

lemma likes_snoc:
  "likes (d\<lparr>swipes := swipes d @ [s]\<rparr>) x y \<longleftrightarrow>
     likes d x y \<or> (user_id s = x \<and> target_user_id s = y \<and> is_like s)"
  by (auto simp: likes_def list_ex_iff)

lemma likes_matches_upd [simp]: "likes (d\<lparr>matches := ms\<rparr>) x y = likes d x y"
  by (simp add: likes_def)







lemma has_profile_upd [simp]:
  "has_profile (d\<lparr>swipes := ss\<rparr>) u = has_profile d u"
  "has_profile (d\<lparr>matches := ms\<rparr>) u = has_profile d u"
  by (simp_all add: has_profile_def)


text \<open>The match table has no unique index on the pair: a second row for a pair is a
  conflict only when it repeats an id.\<close>

lemma pair_not_unique_in_schema:
  assumes "user1_id m < user2_id m" "has_profile d (user1_id m)" "has_profile d (user2_id m)"
    and "\<not> list_ex (\<lambda>x. m_id x = m_id m) (matches d)"
    and "\<not> list_ex (\<lambda>x. m_id x = m_id m') (matches d)" "m_id m' \<noteq> m_id m"
    and "user1_id m' = user1_id m" "user2_id m' = user2_id m"
  shows "insert_match_on_conflict_do_nothing d m = Inr (d\<lparr>matches := matches d @ [m]\<rparr>) \<and>
         insert_match_on_conflict_do_nothing (d\<lparr>matches := matches d @ [m]\<rparr>) m' =
           Inr (d\<lparr>matches := matches d @ [m, m']\<rparr>)"
  using assms by (simp add: insert_match_on_conflict_do_nothing_def)

lemma self_match_rejected:
  "user_id s = target_user_id s \<Longrightarrow> insert_match d (new_match g n s) = Inl check_violation"
  by (simp add: insert_match_def new_match_def)

text \<open>With the rights of the user who swipes, the schema's trigger finds a reverse like
  only in a like of that user on themselves, and its insert into \<^verbatim>\<open>matches\<close> is refused.\<close>

lemma schema_lookup:
  "list_ex (\<lambda>x. user_id x = target_user_id s \<and> target_user_id x = user_id s \<and> is_like x)
     (own_swipes (user_id s) (d\<lparr>swipes := swipes d @ [s]\<rparr>)) \<longleftrightarrow>
   user_id s = target_user_id s \<and> (is_like s \<or> likes d (user_id s) (user_id s))"
  by (auto simp: own_swipes_def likes_def list_ex_iff)

lemma schema_insert_refused:
  "insert_match_on_conflict_do_nothing_as uid d m = Inl insufficient_privilege"
  by (simp add: insert_match_on_conflict_do_nothing_as_def matches_insert_policies_def)

lemma schema_trigger_outcome:
  "create_match_on_mutual_like_schema g n (d\<lparr>swipes := swipes d @ [s]\<rparr>) s =
     (if is_like s \<and> user_id s = target_user_id s then Inl insufficient_privilege
      else Inr ([], d\<lparr>swipes := swipes d @ [s]\<rparr>))"
  by (cases "is_like s")
     (simp_all add: create_match_on_mutual_like_schema_def schema_lookup schema_insert_refused)


lemma new_swipe_sel [simp]:
  "user_id (new_swipe r) = ins_user_id r" "target_user_id (new_swipe r) = ins_target_user_id r"
  "is_like (new_swipe r) = ins_is_like r" "s_id (new_swipe r) = gen_swipe_id r"
  by (simp_all add: new_swipe_def)






lemma insert_swipe_matches:
  "matches (snd (insert_swipe t d r)) = matches d \<or>
   (\<exists>m. matches (snd (insert_swipe t d r)) = matches d @ [m] \<and> user1_id m < user2_id m)"
  by (auto simp: insert_swipe_def Let_def split: sum.splits prod.splits dest!: trigger_matches)

lemma insert_swipe_swipes:
  "swipes (snd (insert_swipe t d r)) = swipes d \<or>
   (swipes (snd (insert_swipe t d r)) = swipes d @ [new_swipe r] \<and>
    \<not> list_ex (\<lambda>s. user_id s = ins_user_id r \<and> target_user_id s = ins_target_user_id r)
        (swipes d))"
  by (auto simp: insert_swipe_def Let_def split: sum.splits prod.splits dest!: trigger_matches)

lemma insert_swipe_Ok:
  assumes "insert_swipe t d r = (Ok ws, d')"
  shows "swipes d' = swipes d @ [new_swipe r]"
    and "\<not> list_ex (\<lambda>s. user_id s = ins_user_id r \<and> target_user_id s = ins_target_user_id r)
        (swipes d)"
  using assms
  by (auto simp: insert_swipe_def Let_def split: if_splits sum.splits prod.splits
      dest!: trigger_matches)

lemma run_keeps_row:
  "x \<in> set (swipes d) \<Longrightarrow>
   length (filter (\<lambda>s. user_id s = a \<and> target_user_id s = b) (swipes d)) = 1 \<Longrightarrow>
   x \<in> set (swipes (run t d h)) \<and>
   length (filter (\<lambda>s. user_id s = a \<and> target_user_id s = b) (swipes (run t d h))) = 1"
proof (induction h arbitrary: d)
  case Nil
  then show ?case by simp
next
  case (Cons r rs)
  have ex: "list_ex (\<lambda>s. user_id s = a \<and> target_user_id s = b) (swipes d)"
  proof (rule ccontr)
    assume "\<not> ?thesis"
    then have "filter (\<lambda>s. user_id s = a \<and> target_user_id s = b) (swipes d) = []"
      by (auto simp: list_ex_iff filter_empty_conv)
    with Cons.prems show False by simp
  qed
  have "x \<in> set (swipes (snd (insert_swipe t d r))) \<and>
        length (filter (\<lambda>s. user_id s = a \<and> target_user_id s = b)
          (swipes (snd (insert_swipe t d r)))) = 1"
    using insert_swipe_swipes [of t d r] Cons.prems ex by auto
  then show ?case using Cons.IH by simp
qed

lemma insert_swipe_admitted:
  assumes "\<not> list_ex (\<lambda>s. s_id s = gen_swipe_id r) (swipes d)"
    and "\<not> list_ex (\<lambda>s. user_id s = ins_user_id r \<and> target_user_id s = ins_target_user_id r) (swipes d)"
    and "has_profile d (ins_user_id r)" "has_profile d (ins_target_user_id r)"
  shows "insert_swipe t d r =
     (case trigger_create_match_on_mutual_like t (gen_match_id r) (ins_now r)
              (d\<lparr>swipes := swipes d @ [new_swipe r]\<rparr>) (new_swipe r) of
        Inl e \<Rightarrow> (Error e, d)
      | Inr (ws, d') \<Rightarrow> (Ok ws, d'))"
  using assms by (simp add: insert_swipe_def Let_def)

lemma body_swipes:
  "create_match_on_mutual_like_body g n d s = Inr d' \<Longrightarrow> swipes d' = swipes d"
  by (auto simp: create_match_on_mutual_like_body_def split: if_splits dest!: insert_match_sound)

lemma likes_self:
  "is_like s \<Longrightarrow> user_id s = target_user_id s \<Longrightarrow>
     likes (d\<lparr>swipes := swipes d @ [s]\<rparr>) (target_user_id s) (user_id s)"
  by (simp add: likes_snoc)

lemma no_self_match:
  "user_id s = target_user_id s \<Longrightarrow> list_all (\<lambda>m. user1_id m < user2_id m) (matches d) \<Longrightarrow>
     \<not> match_exists d s"
  by (auto simp: match_exists_def list_ex_iff list_all_iff)

lemma self_swipe_stored:
  assumes self: "ins_user_id r = ins_target_user_id r"
    and ids: "\<not> list_ex (\<lambda>s. s_id s = gen_swipe_id r) (swipes d)"
    and key: "\<not> list_ex (\<lambda>s. user_id s = ins_user_id r \<and> target_user_id s = ins_target_user_id r) (swipes d)"
    and fk: "has_profile d (ins_user_id r)"
    and canon: "list_all (\<lambda>m. user1_id m < user2_id m) (matches d)"
  shows "insert_swipe t d r =
     (if ins_is_like r
      then (case t of
              schema_sql \<Rightarrow> (Error insufficient_privilege, d)
            | fix_matches_sql \<Rightarrow> (Ok [check_violation], d\<lparr>swipes := swipes d @ [new_swipe r]\<rparr>))
      else (Ok [], d\<lparr>swipes := swipes d @ [new_swipe r]\<rparr>))"
proof -
  have fk2: "has_profile d (ins_target_user_id r)" using fk self by simp
  note adm = insert_swipe_admitted [OF ids key fk fk2, of t]
  have s: "user_id (new_swipe r) = target_user_id (new_swipe r)" using self by simp
  have nm: "\<not> match_exists (d\<lparr>swipes := swipes d @ [new_swipe r]\<rparr>) (new_swipe r)"
    using no_self_match [OF s, of "d\<lparr>swipes := swipes d @ [new_swipe r]\<rparr>"] canon by simp
  show ?thesis
  proof (cases t)
    case schema_sql
    then show ?thesis
      unfolding adm using self by (simp add: schema_trigger_outcome)
  next
    case fix_matches_sql
    show ?thesis
    proof (cases "ins_is_like r")
      case False
      then show ?thesis unfolding adm using fix_matches_sql
        by (simp add: create_match_on_mutual_like_def create_match_on_mutual_like_body_def)
    next
      case True
      then have lk: "likes (d\<lparr>swipes := swipes d @ [new_swipe r]\<rparr>)
          (target_user_id (new_swipe r)) (user_id (new_swipe r))"
        using likes_self [OF _ s] by simp
      show ?thesis unfolding adm using True lk nm self_match_rejected [OF s] fix_matches_sql
        by (simp add: create_match_on_mutual_like_def create_match_on_mutual_like_body_def)
    qed
  qed
qed

lemma select_profiles_not_self: "list_all (\<lambda>p. p_id p \<noteq> uid) (select_profiles d uid)"
  by (auto simp: select_profiles_def list_all_iff dest!: in_set_takeD)

lemma handleSwipe_swipes:
  assumes "handleSwipe e isLike (s, w, d) = (s', w', d')"
  shows "swipes d' = swipes d \<or>
     (\<exists>uid. sw_user e = Some uid \<and> currentIndex s < length (deck s) \<and>
        (\<exists>x. swipes d' = swipes d @ [x] \<and> user_id x = uid \<and>
             target_user_id x = p_id (deck s ! currentIndex s)))"
proof (cases "sw_user e")
  case None
  with assms show ?thesis by (simp add: handleSwipe_def)
next
  case (Some uid)
  let ?r = "\<lparr>ins_user_id = uid, ins_target_user_id = p_id (deck s ! currentIndex s),
             ins_is_like = isLike, gen_swipe_id = sw_gen_swipe_id e,
             gen_match_id = sw_gen_match_id e, ins_now = sw_now e\<rparr>"
  have "d' = d \<or> (currentIndex s < length (deck s) \<and> d' = snd (insert_swipe (sw_trigger e) d ?r))"
    using assms Some
    by (auto simp: handleSwipe_def Let_def split: if_splits prod.splits reply.splits)
  then show ?thesis using insert_swipe_swipes [of "sw_trigger e" d ?r] Some
    by (auto simp: new_swipe_def)
qed


text \<open>A swipe that \<^verbatim>\<open>handleSwipe\<close> submits again is refused by the data layer; the
  screen stays on the same profile and reports the error.\<close>

lemma handleSwipe_conflict:
  assumes usr: "sw_user e = Some uid" and idle: "\<not> swiping s"
    and idx: "currentIndex s < length (deck s)"
    and budget: "allowed (fst (check (limits w) (sw_date_now e) (''swipe'', uid) SWIPE))"
    and stored: "list_ex (\<lambda>x. user_id x = uid \<and> target_user_id x = p_id (deck s ! currentIndex s))
                   (swipes d)"
  shows "fst (handleSwipe e isLike (s, w, d)) = s \<and>
         snd (snd (handleSwipe e isLike (s, w, d))) = d \<and>
         trace (fst (snd (handleSwipe e isLike (s, w, d)))) =
           trace w @ [Log Info ''Swipe action'', Log Err ''Swipe failed'',
                      if sw_dev e then ConsoleError (PostgrestError unique_violation) ''swipe''
                      else SentryCaptureException (PostgrestError unique_violation) ''swipe'']"
proof -
  have "insert_swipe (sw_trigger e) d
          \<lparr>ins_user_id = uid, ins_target_user_id = p_id (deck s ! currentIndex s),
           ins_is_like = isLike, gen_swipe_id = sw_gen_swipe_id e,
           gen_match_id = sw_gen_match_id e, ins_now = sw_now e\<rparr> = (Error unique_violation, d)"
    using stored by (simp add: insert_swipe_def Let_def)
  then show ?thesis
    using usr idle idx budget
    by (auto simp: handleSwipe_def Let_def captureException_def emit_def split: prod.splits)
qed

lemma reachable_canonical:
  "reachable d \<Longrightarrow> list_all (\<lambda>m. user1_id m < user2_id m) (matches d)"
proof (induction rule: reachable.induct)
  case (reach_init ps)
  then show ?case by (simp add: init_db_def)
next
  case (reach_swipe d t r)
  then show ?case using insert_swipe_matches [of t d r] by auto
next
  case (reach_match d m d')
  then show ?case by (auto dest!: insert_match_ocdn_sound)
next
  case (reach_match_plain d m d')
  then show ?case by (auto dest!: insert_match_sound)
qed

lemma insert_match_fresh:
  "insert_match d m = Inr d' \<Longrightarrow> d' = d\<lparr>matches := matches d @ [m]\<rparr> \<and> m_id m \<notin> m_id ` set (matches d)"
  by (auto simp: insert_match_def list_ex_iff split: if_splits)

lemma insert_match_ocdn_fresh:
  "insert_match_on_conflict_do_nothing d m = Inr d' \<Longrightarrow>
     d' = d \<or> (d' = d\<lparr>matches := matches d @ [m]\<rparr> \<and> m_id m \<notin> m_id ` set (matches d))"
  by (auto simp: insert_match_on_conflict_do_nothing_def list_ex_iff split: if_splits)

lemma trigger_fresh:
  "trigger_create_match_on_mutual_like t g n d NEW = Inr (ws, d') \<Longrightarrow>
     matches d' = matches d \<or>
     (\<exists>m. matches d' = matches d @ [m] \<and> m_id m \<notin> m_id ` set (matches d))"
  by (cases t)
     (auto simp: create_match_on_mutual_like_schema_def create_match_on_mutual_like_def
        create_match_on_mutual_like_body_def insert_match_on_conflict_do_nothing_as_def
        split: if_splits sum.splits dest!: insert_match_fresh insert_match_ocdn_fresh)

lemma insert_swipe_fresh:
  "matches (snd (insert_swipe t d r)) = matches d \<or>
   (\<exists>m. matches (snd (insert_swipe t d r)) = matches d @ [m] \<and> m_id m \<notin> m_id ` set (matches d))"
  by (auto simp: insert_swipe_def Let_def split: sum.splits prod.splits dest!: trigger_fresh)

lemma reachable_primary_key: "reachable d \<Longrightarrow> distinct (map m_id (matches d))"
proof (induction rule: reachable.induct)
  case (reach_init ps)
  then show ?case by (simp add: init_db_def)
next
  case (reach_swipe d t r)
  then show ?case using insert_swipe_fresh [of t d r] by auto
next
  case (reach_match d m d')
  then show ?case by (auto dest!: insert_match_ocdn_fresh)
next
  case (reach_match_plain d m d')
  then show ?case by (auto dest!: insert_match_fresh)
qed

lemmas scenario_eval =
  init_db_def insert_swipe_def new_swipe_def has_profile_def likes_def new_match_def
  create_match_on_mutual_like_def create_match_on_mutual_like_body_def match_exists_def
  insert_match_def create_match_on_mutual_like_schema_def own_swipes_def
  insert_match_on_conflict_do_nothing_as_def matches_insert_policies_def
  insert_match_on_conflict_do_nothing_def

subsection \<open>Match rows and mutual likes\<close>




subsection \<open>The canonical order of a match row\<close>

text \<open>
  C3. In every reachable state of the data layer, every row of the match table has
  \<open>user1_id < user2_id\<close> in the order of uuids: never equal, never reversed.
\<close>

theorem matches_low_lt_high:
  "reachable d \<Longrightarrow> list_all (\<lambda>m. user1_id m < user2_id m) (matches d)"
proof (induction rule: reachable.induct)
  case (reach_init ps)
  show ?case by (simp add: init_db_def)
next
  case (reach_swipe d t r)
  from insert_swipe_matches [of t d r] show ?case
  proof
    assume "matches (snd (insert_swipe t d r)) = matches d"
    with reach_swipe.IH show ?thesis by simp
  next
    assume "\<exists>m. matches (snd (insert_swipe t d r)) = matches d @ [m] \<and> user1_id m < user2_id m"
    with reach_swipe.IH show ?thesis by auto
  qed
next
  case (reach_match d m d')
  from insert_match_ocdn_sound [OF reach_match.hyps(2)] reach_match.IH
  show ?case by auto
next
  case (reach_match_plain d m d')
  from insert_match_sound [OF reach_match_plain.hyps(2)] reach_match_plain.IH
  show ?case by auto
qed

theorem matches_low_lt_high_witness:
  "reachable (snd (insert_swipe fix_matches_sql
      (snd (insert_swipe schema_sql (init_db [blank_profile user_X, blank_profile user_Y])
         (swipe_by user_Y user_X True 1)))
      (swipe_by user_X user_Y True 2))) \<and>
   matches (snd (insert_swipe fix_matches_sql
      (snd (insert_swipe schema_sql (init_db [blank_profile user_X, blank_profile user_Y])
         (swipe_by user_Y user_X True 1)))
      (swipe_by user_X user_Y True 2))) =
     [\<lparr>m_id = 5, user1_id = user_X, user2_id = user_Y, m_created_at = 2\<rparr>] \<and>
   list_all (\<lambda>m. user1_id m < user2_id m)
     (matches (snd (insert_swipe fix_matches_sql
      (snd (insert_swipe schema_sql (init_db [blank_profile user_X, blank_profile user_Y])
         (swipe_by user_Y user_X True 1)))
      (swipe_by user_X user_Y True 2))))"
proof -
  have r: "reachable (snd (insert_swipe fix_matches_sql
      (snd (insert_swipe schema_sql (init_db [blank_profile user_X, blank_profile user_Y])
         (swipe_by user_Y user_X True 1)))
      (swipe_by user_X user_Y True 2)))"
    by (intro reach_swipe reach_init)
  have ms: "matches (snd (insert_swipe fix_matches_sql
      (snd (insert_swipe schema_sql (init_db [blank_profile user_X, blank_profile user_Y])
         (swipe_by user_Y user_X True 1)))
      (swipe_by user_X user_Y True 2))) =
     [\<lparr>m_id = 5, user1_id = user_X, user2_id = user_Y, m_created_at = 2\<rparr>]"
    by (simp add: scenario_eval)
  from r ms matches_low_lt_high [OF r] show ?thesis by blast
qed

subsection \<open>Resubmitted swipes\<close>

text \<open>
  C5. Once a swipe of an actor on a target has been stored, and whatever swipes are
  inserted afterwards, a further swipe with the same actor and target fails with a
  unique violation (the conflict error) and leaves the tables as they were: the first
  row is still there, it is the only row of that actor and target, and no match row is
  added.
\<close>

theorem resubmitted_swipe_conflict:
  assumes first: "insert_swipe t d r = (Ok ws, d1)"
    and same: "ins_user_id r' = ins_user_id r" "ins_target_user_id r' = ins_target_user_id r"
  shows "insert_swipe t' (run t'' d1 h) r' = (Error unique_violation, run t'' d1 h) \<and>
         new_swipe r \<in> set (swipes (run t'' d1 h)) \<and>
         length (filter (\<lambda>s. user_id s = ins_user_id r \<and> target_user_id s = ins_target_user_id r)
           (swipes (run t'' d1 h))) = 1"
proof -
  note ok = insert_swipe_Ok [OF first]
  have "filter (\<lambda>s. user_id s = ins_user_id r \<and> target_user_id s = ins_target_user_id r) (swipes d) = []"
    using ok(2) by (auto simp: list_ex_iff filter_empty_conv)
  then have one: "length (filter (\<lambda>s. user_id s = ins_user_id r \<and> target_user_id s = ins_target_user_id r)
           (swipes d1)) = 1"
    using ok(1) by simp
  have mem: "new_swipe r \<in> set (swipes d1)" using ok(1) by simp
  note kept = run_keeps_row [OF mem one, of t'' h]
  then have "list_ex (\<lambda>s. user_id s = ins_user_id r' \<and> target_user_id s = ins_target_user_id r')
      (swipes (run t'' d1 h))"
    using same by (force simp: list_ex_iff)
  then have "insert_swipe t' (run t'' d1 h) r' = (Error unique_violation, run t'' d1 h)"
    by (simp add: insert_swipe_def Let_def)
  with kept show ?thesis by simp
qed

theorem resubmitted_swipe_conflict_witness:
  "insert_swipe schema_sql (init_db [blank_profile user_X, blank_profile user_Y])
     (swipe_by user_X user_Y True 1) =
     (Ok [], \<lparr>profiles = [blank_profile user_X, blank_profile user_Y],
              swipes = [new_swipe (swipe_by user_X user_Y True 1)], matches = []\<rparr>) \<and>
   insert_swipe fix_matches_sql
     (run schema_sql \<lparr>profiles = [blank_profile user_X, blank_profile user_Y],
              swipes = [new_swipe (swipe_by user_X user_Y True 1)], matches = []\<rparr>
        [swipe_by user_Y user_X True 2])
     (swipe_by user_X user_Y False 3) =
     (Error unique_violation,
      run schema_sql \<lparr>profiles = [blank_profile user_X, blank_profile user_Y],
              swipes = [new_swipe (swipe_by user_X user_Y True 1)], matches = []\<rparr>
        [swipe_by user_Y user_X True 2])"
proof -
  have first: "insert_swipe schema_sql (init_db [blank_profile user_X, blank_profile user_Y])
     (swipe_by user_X user_Y True 1) =
     (Ok [], \<lparr>profiles = [blank_profile user_X, blank_profile user_Y],
              swipes = [new_swipe (swipe_by user_X user_Y True 1)], matches = []\<rparr>)"
    by (simp add: scenario_eval)
  from first resubmitted_swipe_conflict [OF first, of "swipe_by user_X user_Y False 3"
      fix_matches_sql schema_sql "[swipe_by user_Y user_X True 2]"]
  show ?thesis by simp
qed

subsection \<open>Errors inside the trigger\<close>

text \<open>
  C9, as stated: any exception raised inside the match-derivation trigger is caught and
  suppressed, and the swipe insert commits. The trigger function as the schema defines it
  has no handler: for a like of a user on themselves its insert into \<^verbatim>\<open>matches\<close> is
  refused, and the swipe insert is aborted with that error.
\<close>

theorem trigger_errors_suppressed_counterexample:
  "create_match_on_mutual_like_schema 3 1
     \<lparr>profiles = [blank_profile user_X], swipes = [new_swipe (swipe_by user_X user_X True 1)],
      matches = []\<rparr> (new_swipe (swipe_by user_X user_X True 1)) = Inl insufficient_privilege \<and>
   insert_swipe schema_sql (init_db [blank_profile user_X]) (swipe_by user_X user_X True 1) =
     (Error insufficient_privilege, init_db [blank_profile user_X])"
  by (simp add: scenario_eval)

text \<open>
  C9, amended. The trigger function as \<^verbatim>\<open>fix-matches.sql\<close> defines it never raises: an
  error \<open>e\<close> raised while it derives or inserts the match is turned into the warning
  \<open>[e]\<close> and the tables are left as the trigger found them. So with this definition a
  swipe that passes the constraints of its own table is committed whatever happens in the
  trigger; when the trigger's body fails with \<open>e\<close> the statement succeeds with that
  warning and stores the swipe alone.
\<close>

theorem trigger_errors_suppressed:
  assumes ids: "\<not> list_ex (\<lambda>s. s_id s = gen_swipe_id r) (swipes d)"
    and key: "\<not> list_ex (\<lambda>s. user_id s = ins_user_id r \<and> target_user_id s = ins_target_user_id r) (swipes d)"
    and fk: "has_profile d (ins_user_id r)" "has_profile d (ins_target_user_id r)"
  shows "create_match_on_mutual_like g n d0 s \<noteq> Inl e' \<and>
         (create_match_on_mutual_like_body g n d0 s = Inl e \<longrightarrow>
            create_match_on_mutual_like g n d0 s = Inr ([e], d0)) \<and>
         (\<exists>ws d'. insert_swipe fix_matches_sql d r = (Ok ws, d') \<and>
                   swipes d' = swipes d @ [new_swipe r]) \<and>
         (create_match_on_mutual_like_body (gen_match_id r) (ins_now r)
              (d\<lparr>swipes := swipes d @ [new_swipe r]\<rparr>) (new_swipe r) = Inl e \<longrightarrow>
            insert_swipe fix_matches_sql d r = (Ok [e], d\<lparr>swipes := swipes d @ [new_swipe r]\<rparr>))"
proof -
  have a: "create_match_on_mutual_like g n d0 s \<noteq> Inl e'"
    by (simp add: create_match_on_mutual_like_def split: sum.splits)
  have b: "create_match_on_mutual_like_body g n d0 s = Inl e \<longrightarrow>
            create_match_on_mutual_like g n d0 s = Inr ([e], d0)"
    by (simp add: create_match_on_mutual_like_def)
  note adm = insert_swipe_admitted [OF ids key fk, of fix_matches_sql]
  have c: "\<exists>ws d'. insert_swipe fix_matches_sql d r = (Ok ws, d') \<and>
                   swipes d' = swipes d @ [new_swipe r]"
    unfolding adm
    by (auto simp: create_match_on_mutual_like_def split: sum.splits dest!: body_swipes)
  have d: "create_match_on_mutual_like_body (gen_match_id r) (ins_now r)
              (d\<lparr>swipes := swipes d @ [new_swipe r]\<rparr>) (new_swipe r) = Inl e \<longrightarrow>
            insert_swipe fix_matches_sql d r = (Ok [e], d\<lparr>swipes := swipes d @ [new_swipe r]\<rparr>)"
    unfolding adm by (simp add: create_match_on_mutual_like_def)
  from a b c d show ?thesis by blast
qed

theorem trigger_errors_suppressed_witness:
  "\<not> list_ex (\<lambda>s. s_id s = gen_swipe_id (swipe_by user_X user_X True 1))
       (swipes (init_db [blank_profile user_X])) \<and>
   has_profile (init_db [blank_profile user_X]) user_X \<and>
   create_match_on_mutual_like_body 3 1
     \<lparr>profiles = [blank_profile user_X], swipes = [new_swipe (swipe_by user_X user_X True 1)],
      matches = []\<rparr> (new_swipe (swipe_by user_X user_X True 1)) = Inl check_violation \<and>
   insert_swipe fix_matches_sql (init_db [blank_profile user_X]) (swipe_by user_X user_X True 1) =
     (Ok [check_violation],
      \<lparr>profiles = [blank_profile user_X], swipes = [new_swipe (swipe_by user_X user_X True 1)],
       matches = []\<rparr>)"
proof -
  have ids: "\<not> list_ex (\<lambda>s. s_id s = gen_swipe_id (swipe_by user_X user_X True 1))
       (swipes (init_db [blank_profile user_X]))"
    by (simp add: init_db_def)
  have key: "\<not> list_ex (\<lambda>s. user_id s = ins_user_id (swipe_by user_X user_X True 1) \<and>
       target_user_id s = ins_target_user_id (swipe_by user_X user_X True 1))
       (swipes (init_db [blank_profile user_X]))"
    by (simp add: init_db_def)
  have fk: "has_profile (init_db [blank_profile user_X]) (ins_user_id (swipe_by user_X user_X True 1))"
    "has_profile (init_db [blank_profile user_X]) (ins_target_user_id (swipe_by user_X user_X True 1))"
    by (simp_all add: init_db_def has_profile_def)
  have body: "create_match_on_mutual_like_body 3 1
     \<lparr>profiles = [blank_profile user_X], swipes = [new_swipe (swipe_by user_X user_X True 1)],
      matches = []\<rparr> (new_swipe (swipe_by user_X user_X True 1)) = Inl check_violation"
    by (simp add: scenario_eval)
  from trigger_errors_suppressed [OF ids key fk, of 3 1 "init_db [blank_profile user_X]"
      "new_swipe (swipe_by user_X user_X True 1)" check_violation check_violation] body
  have "insert_swipe fix_matches_sql (init_db [blank_profile user_X])
      (swipe_by user_X user_X True 1) =
     (Ok [check_violation],
      \<lparr>profiles = [blank_profile user_X], swipes = [new_swipe (swipe_by user_X user_X True 1)],
       matches = []\<rparr>)"
    by (simp add: init_db_def)
  with ids fk body show ?thesis by simp
qed

subsection \<open>Self-swipes\<close>

text \<open>
  C4, as stated: swipe creation rejects an insertion whose actor is its target. It does
  not: the table has no constraint on the two columns, and a pass of a user on
  themselves is stored.
\<close>

theorem self_swipe_rejected_counterexample:
  "insert_swipe fix_matches_sql (init_db [blank_profile user_X]) (swipe_by user_X user_X False 1) =
     (Ok [], \<lparr>profiles = [blank_profile user_X],
              swipes = [\<lparr>s_id = 2, user_id = user_X, target_user_id = user_X, is_like = False,
                         s_created_at = 1\<rparr>],
              matches = []\<rparr>)"
  by (simp add: scenario_eval)

text \<open>
  C4, amended. In a reachable state, a swipe of a user on themselves that passes the
  constraints of the swipe table (its keys, the profile it refers to) is stored when it
  is a pass; when it is a like, the
  match insert of the trigger fails: under the schema's trigger it is refused by the
  row-level security of \<^verbatim>\<open>matches\<close> and the swipe is aborted; under the trigger of
  \<^verbatim>\<open>fix-matches.sql\<close> it violates \<^verbatim>\<open>CHECK (user1_id < user2_id)\<close>, the error is suppressed
  and the swipe is stored. In no case is a match row added. The discover screen
  does not submit such a swipe: the profiles \<^verbatim>\<open>fetchProfiles\<close> loads exclude the user's
  own, \<^verbatim>\<open>handleSwipe\<close> keeps the loaded profiles and swipes on one of them only.
\<close>

theorem self_swipe_stored_by_data_layer:
  assumes reach: "reachable d"
    and self: "ins_user_id r = ins_target_user_id r"
    and ids: "\<not> list_ex (\<lambda>s. s_id s = gen_swipe_id r) (swipes d)"
    and key: "\<not> list_ex (\<lambda>s. user_id s = ins_user_id r \<and> target_user_id s = ins_target_user_id r) (swipes d)"
    and fk: "has_profile d (ins_user_id r)"
  shows "insert_swipe t d r =
           (if ins_is_like r
            then (case t of
                    schema_sql \<Rightarrow> (Error insufficient_privilege, d)
                  | fix_matches_sql \<Rightarrow>
                      (Ok [check_violation], d\<lparr>swipes := swipes d @ [new_swipe r]\<rparr>))
            else (Ok [], d\<lparr>swipes := swipes d @ [new_swipe r]\<rparr>)) \<and>
         matches (snd (insert_swipe t d r)) = matches d \<and>
         list_all (\<lambda>p. p_id p \<noteq> uid)
           (deck (fst (fetchProfiles dv (Some uid) None d0 (s0, w0)))) \<and>
         (sw_user e = Some uid \<and> list_all (\<lambda>p. p_id p \<noteq> uid) (deck s) \<longrightarrow>
            deck (fst (handleSwipe e isLike (s, w, d))) = deck s \<and>
            list_all (\<lambda>x. x \<in> set (swipes d) \<or> user_id x \<noteq> target_user_id x)
              (swipes (snd (snd (handleSwipe e isLike (s, w, d))))))"
proof -
  note st = self_swipe_stored [OF self ids key fk reachable_canonical [OF reach], of t]
  have a: "matches (snd (insert_swipe t d r)) = matches d"
    unfolding st by (cases t) simp_all
  have b: "list_all (\<lambda>p. p_id p \<noteq> uid)
           (deck (fst (fetchProfiles dv (Some uid) None d0 (s0, w0))))"
    using select_profiles_not_self [of uid d0] by (simp add: fetchProfiles_def)
  have c: "deck (fst (handleSwipe e isLike (s, w, d))) = deck s"
    by (auto simp: handleSwipe_def Let_def split: option.splits prod.splits reply.splits)
  have d: "list_all (\<lambda>x. x \<in> set (swipes d) \<or> user_id x \<noteq> target_user_id x)
              (swipes (snd (snd (handleSwipe e isLike (s, w, d)))))"
    if u: "sw_user e = Some uid" and dk: "list_all (\<lambda>p. p_id p \<noteq> uid) (deck s)"
  proof -
    obtain s' w' d' where h: "handleSwipe e isLike (s, w, d) = (s', w', d')"
      by (cases "handleSwipe e isLike (s, w, d)") auto
    from handleSwipe_swipes [OF h] u dk show ?thesis
      unfolding h by (auto simp: list_all_iff)
  qed
  from st a b c d show ?thesis by blast
qed

theorem self_swipe_stored_by_data_layer_witness:
  "reachable (init_db [blank_profile user_X, blank_profile user_Y]) \<and>
   ins_user_id (swipe_by user_X user_X True 1) = ins_target_user_id (swipe_by user_X user_X True 1) \<and>
   has_profile (init_db [blank_profile user_X, blank_profile user_Y]) user_X \<and>
   insert_swipe schema_sql (init_db [blank_profile user_X, blank_profile user_Y])
     (swipe_by user_X user_X True 1) =
     (Error insufficient_privilege, init_db [blank_profile user_X, blank_profile user_Y]) \<and>
   insert_swipe fix_matches_sql (init_db [blank_profile user_X, blank_profile user_Y])
     (swipe_by user_X user_X True 1) =
     (Ok [check_violation],
      \<lparr>profiles = [blank_profile user_X, blank_profile user_Y],
       swipes = [new_swipe (swipe_by user_X user_X True 1)], matches = []\<rparr>) \<and>
   deck (fst (fetchProfiles False (Some user_X) None
     (init_db [blank_profile user_X, blank_profile user_Y])
     (\<lparr>deck = [], currentIndex = 0, swiping = False\<rparr>, \<lparr>limits = Map.empty, trace = []\<rparr>))) =
     [blank_profile user_Y] \<and>
   list_all (\<lambda>x. x \<in> set (swipes (init_db [blank_profile user_X, blank_profile user_Y])) \<or>
                 user_id x \<noteq> target_user_id x)
     (swipes (snd (snd (handleSwipe
        \<lparr>sw_user = Some user_X, sw_date_now = 1000, sw_dev = False, sw_trigger = fix_matches_sql,
         sw_gen_swipe_id = 4, sw_gen_match_id = 5, sw_now = 2\<rparr> True
        (\<lparr>deck = [blank_profile user_Y], currentIndex = 0, swiping = False\<rparr>,
         \<lparr>limits = Map.empty, trace = []\<rparr>,
         init_db [blank_profile user_X, blank_profile user_Y])))))"
proof -
  have reach: "reachable (init_db [blank_profile user_X, blank_profile user_Y])"
    by (rule reach_init)
  have self: "ins_user_id (swipe_by user_X user_X True 1) =
      ins_target_user_id (swipe_by user_X user_X True 1)"
    by simp
  have ids: "\<not> list_ex (\<lambda>s. s_id s = gen_swipe_id (swipe_by user_X user_X True 1))
      (swipes (init_db [blank_profile user_X, blank_profile user_Y]))"
    by (simp add: init_db_def)
  have key: "\<not> list_ex (\<lambda>s. user_id s = ins_user_id (swipe_by user_X user_X True 1) \<and>
      target_user_id s = ins_target_user_id (swipe_by user_X user_X True 1))
      (swipes (init_db [blank_profile user_X, blank_profile user_Y]))"
    by (simp add: init_db_def)
  have fk: "has_profile (init_db [blank_profile user_X, blank_profile user_Y])
      (ins_user_id (swipe_by user_X user_X True 1))"
    by (simp add: init_db_def has_profile_def)
  have dk: "deck (fst (fetchProfiles False (Some user_X) None
     (init_db [blank_profile user_X, blank_profile user_Y])
     (\<lparr>deck = [], currentIndex = 0, swiping = False\<rparr>, \<lparr>limits = Map.empty, trace = []\<rparr>))) =
     [blank_profile user_Y]"
    by (simp add: fetchProfiles_def select_profiles_def swipedIds_def init_db_def)
  have ante: "sw_user \<lparr>sw_user = Some user_X, sw_date_now = 1000, sw_dev = False,
         sw_trigger = fix_matches_sql, sw_gen_swipe_id = 4, sw_gen_match_id = 5, sw_now = 2\<rparr> =
       Some user_X \<and>
     list_all (\<lambda>p. p_id p \<noteq> user_X)
       (deck \<lparr>deck = [blank_profile user_Y], currentIndex = 0, swiping = False\<rparr>)"
    by simp
  note a = self_swipe_stored_by_data_layer [OF reach self ids key fk, where t = schema_sql
      and uid = user_X
      and e = "\<lparr>sw_user = Some user_X, sw_date_now = 1000, sw_dev = False,
         sw_trigger = fix_matches_sql, sw_gen_swipe_id = 4, sw_gen_match_id = 5, sw_now = 2\<rparr>"
      and s = "\<lparr>deck = [blank_profile user_Y], currentIndex = 0, swiping = False\<rparr>"
      and w = "\<lparr>limits = Map.empty, trace = []\<rparr>" and isLike = True]
  note b = self_swipe_stored_by_data_layer [OF reach self ids key fk, where t = fix_matches_sql]
  from a have 1: "insert_swipe schema_sql (init_db [blank_profile user_X, blank_profile user_Y])
     (swipe_by user_X user_X True 1) =
     (Error insufficient_privilege, init_db [blank_profile user_X, blank_profile user_Y])"
    by simp
  from b have 2: "insert_swipe fix_matches_sql (init_db [blank_profile user_X, blank_profile user_Y])
     (swipe_by user_X user_X True 1) =
     (Ok [check_violation],
      \<lparr>profiles = [blank_profile user_X, blank_profile user_Y],
       swipes = [new_swipe (swipe_by user_X user_X True 1)], matches = []\<rparr>)"
    by (simp add: init_db_def)
  from a ante have 3: "list_all (\<lambda>x. x \<in> set (swipes (init_db [blank_profile user_X, blank_profile user_Y])) \<or>
                 user_id x \<noteq> target_user_id x)
     (swipes (snd (snd (handleSwipe
        \<lparr>sw_user = Some user_X, sw_date_now = 1000, sw_dev = False, sw_trigger = fix_matches_sql,
         sw_gen_swipe_id = 4, sw_gen_match_id = 5, sw_now = 2\<rparr> True
        (\<lparr>deck = [blank_profile user_Y], currentIndex = 0, swiping = False\<rparr>,
         \<lparr>limits = Map.empty, trace = []\<rparr>,
         init_db [blank_profile user_X, blank_profile user_Y])))))"
    by blast
  from reach self fk dk 1 2 3 show ?thesis by simp
qed

section \<open>Properties of the client\<close>

lemma sorted_snoc_last:
  "sorted xs \<Longrightarrow> sorted (xs @ [x]) \<longleftrightarrow> xs = [] \<or> last xs \<le> (x::'a::linorder)"
  by (cases xs rule: rev_cases) (auto simp: sorted_append)

lemma dropWhile_id: "xs = [] \<or> \<not> P (hd xs) \<Longrightarrow> dropWhile P xs = xs"
  by (cases xs) auto

lemma trim_idem: "trim (trim s) = trim s"
proof -
  let ?t = "dropWhile is_white_space s"
  let ?u = "dropWhile is_white_space (rev ?t)"
  have t: "?t = [] \<or> \<not> is_white_space (hd ?t)"
    using hd_dropWhile [of is_white_space s] by blast
  have u: "?u = [] \<or> \<not> is_white_space (hd ?u)"
    using hd_dropWhile [of is_white_space "rev ?t"] by blast
  have "rev ?u = [] \<or> \<not> is_white_space (hd (rev ?u))"
  proof (cases "?t = []")
    case True
    then have "?u = []" by (simp del: dropWhile_eq_Nil_conv)
    then show ?thesis by (simp del: dropWhile_eq_Nil_conv)
  next
    case False
    with t have nw: "\<not> is_white_space (hd ?t)" by blast
    have "last (rev ?t) = hd ?t" using False by (simp add: last_rev)
    then have "\<exists>x\<in>set (rev ?t). \<not> is_white_space x"
      using nw False by (metis last_in_set rev_is_Nil_conv)
    then obtain ys where ys: "rev ?t = takeWhile is_white_space (rev ?t) @ ?u" "?u \<noteq> []"
      by (metis dropWhile_eq_Nil_conv takeWhile_dropWhile_id)
    then have "last ?u = last (rev ?t)" by (metis last_appendR)
    then have "hd (rev ?u) = hd ?t" using ys(2) False by (simp add: hd_rev last_rev)
    with nw show ?thesis by simp
  qed
  then have 1: "dropWhile is_white_space (rev ?u) = rev ?u" by (rule dropWhile_id)
  have 2: "dropWhile is_white_space ?u = ?u" using u by (rule dropWhile_id)
  show ?thesis by (simp add: trim_def 1 2)
qed

lemma draft_kept:
  "outcome e \<noteq> inserted \<Longrightarrow>
     trim (newMessage (fst (sendMessage e (c, w)))) = trim (newMessage c)"
  by (auto simp: sendMessage_def send_failed_def Let_def trim_idem
      split: option.splits prod.splits insert_outcome.splits)

text \<open>What the loop over the messages leaves in \<^verbatim>\<open>unreadCountByMatch\<close>.\<close>

lemma group_message_count:
  "or_zero (snd (foldl (group_message uid data) (bm, un) msgs) k) =
     or_zero (un k) +
     length (filter (\<lambda>msg. match_id msg = k \<and>
        Some (sender_id msg) = otherUserId uid (find (\<lambda>m. m_id m = k) data)) msgs)"
proof (induction msgs arbitrary: bm un)
  case Nil
  then show ?case by simp
next
  case (Cons msg msgs)
  obtain bm' un' where step: "group_message uid data (bm, un) msg = (bm', un')"
    by (cases "group_message uid data (bm, un) msg") auto
  have "or_zero (un' k) = or_zero (un k) +
      (if match_id msg = k \<and>
          Some (sender_id msg) = otherUserId uid (find (\<lambda>m. m_id m = k) data) then 1 else 0)"
    using step by (auto simp: group_message_def Let_def or_zero_def split: if_splits)
  then show ?case using Cons.IH [of bm' un'] step by simp
qed

lemma find_by_key:
  "distinct (map f xs) \<Longrightarrow> x \<in> set xs \<Longrightarrow> find (\<lambda>y. f y = f x) xs = Some x"
  by (induction xs) (auto simp: image_iff)

lemma length_filter_select_messages_in:
  "k \<in> set ids \<Longrightarrow>
     length (filter (\<lambda>msg. match_id msg = k \<and> P msg) (select_messages_in tbl ids)) =
     length (filter (\<lambda>msg. match_id msg = k \<and> P msg) tbl)"
proof -
  assume k: "k \<in> set ids"
  have "filter (\<lambda>msg. match_id msg = k \<and> P msg) (filter (\<lambda>m. match_id m \<in> set ids) tbl) =
        filter (\<lambda>msg. match_id msg = k \<and> P msg) tbl"
    using k by (auto simp: filter_filter intro!: filter_cong)
  then show ?thesis
    by (simp add: select_messages_in_def rev_filter [symmetric] filter_sort)
qed

lemma select_matches_rows:
  assumes "m \<in> set (select_matches d uid)"
  shows "\<exists>x\<in>set (matches d). m_id m = m_id x \<and> user1_id m = user1_id x \<and>
           user2_id m = user2_id x \<and> (user1_id x = uid \<or> user2_id x = uid)"
  using assms by (auto simp: select_matches_def)

lemma select_matches_ids:
  "distinct (map m_id (matches d)) \<Longrightarrow> distinct (map m_id (select_matches d uid))"
  by (simp add: select_matches_def comp_def rev_map [symmetric] distinct_map distinct_filter
      inj_on_def) 

lemma matchesWithProfiles_unread:
  assumes pk: "distinct (map m_id data)"
    and v: "v \<in> set (matchesWithProfiles uid data (Some msgs))"
  shows "\<exists>m\<in>set data. m_id v = m_id m \<and> user1_id v = user1_id m \<and> user2_id v = user2_id m \<and>
           unreadCount v =
             length (filter (\<lambda>msg. match_id msg = m_id m \<and>
                sender_id msg = (if user1_id m = uid then user2_id m else user1_id m)) msgs)"
proof -
  obtain bm un where g: "foldl (group_message uid data) (Map.empty, Map.empty) msgs = (bm, un)"
    by (cases "foldl (group_message uid data) (Map.empty, Map.empty) msgs") auto
  from v g obtain m where m: "m \<in> set data" "m_id v = m_id m" "user1_id v = user1_id m"
      "user2_id v = user2_id m" "unreadCount v = or_zero (un (m_id m))"
    by (auto simp: matchesWithProfiles_def group_messages_def Let_def)
  have "or_zero (un (m_id m)) =
      length (filter (\<lambda>msg. match_id msg = m_id m \<and>
        Some (sender_id msg) = otherUserId uid (find (\<lambda>x. m_id x = m_id m) data)) msgs)"
    using group_message_count [of uid data Map.empty Map.empty msgs "m_id m"] g
    by (simp add: or_zero_def)
  also have "find (\<lambda>x. m_id x = m_id m) data = Some m"
    using find_by_key [OF pk m(1)] .
  finally have "or_zero (un (m_id m)) =
      length (filter (\<lambda>msg. match_id msg = m_id m \<and>
                sender_id msg = (if user1_id m = uid then user2_id m else user1_id m)) msgs)"
    by (simp add: otherUserId_def)
  with m show ?thesis by auto
qed


subsection \<open>Deduplication of realtime events\<close>

text \<open>
  C6. An inbound realtime event whose message id already occurs in the list the chat
  session holds leaves the list as it is, and an event with a new id appends that message
  at the end. In particular, after a fetch that returned \<open>[m1, m2]\<close>, an event that
  carries the id of \<open>m2\<close> again and an event for a new message \<open>m3\<close>, the list is
  \<open>[m1, m2, m3]\<close>.
\<close>

theorem realtime_event_deduplicated:
  "(list_ex (\<lambda>m. msg_id m = msg_id e) (messages c) \<longrightarrow> messages (on_insert e c) = messages c) \<and>
   (\<not> list_ex (\<lambda>m. msg_id m = msg_id e) (messages c) \<longrightarrow>
      messages (on_insert e c) = messages c @ [e]) \<and>
   (msg_id e2 = msg_id m2 \<and> msg_id m3 \<noteq> msg_id m1 \<and> msg_id m3 \<noteq> msg_id m2 \<longrightarrow>
      messages (on_insert m3 (on_insert e2 (fetchMessages (Some [m1, m2]) c0))) = [m1, m2, m3])"
  by (simp add: on_insert_def fetchMessages_def)

theorem realtime_event_deduplicated_witness:
  "list_ex (\<lambda>m. msg_id m = msg_id (msg 2 7 user_Y 5))
     (messages (fetchMessages (Some [msg 1 7 user_X 4, msg 2 7 user_Y 5]) chat_init)) \<and>
   \<not> list_ex (\<lambda>m. msg_id m = msg_id (msg 3 7 user_X 6))
     (messages (fetchMessages (Some [msg 1 7 user_X 4, msg 2 7 user_Y 5]) chat_init)) \<and>
   msg_id (msg 3 7 user_X 6) \<noteq> msg_id (msg 1 7 user_X 4) \<and>
   msg_id (msg 3 7 user_X 6) \<noteq> msg_id (msg 2 7 user_Y 5) \<and>
   messages (on_insert (msg 2 7 user_Y 5)
     (fetchMessages (Some [msg 1 7 user_X 4, msg 2 7 user_Y 5]) chat_init)) =
     [msg 1 7 user_X 4, msg 2 7 user_Y 5] \<and>
   messages (on_insert (msg 3 7 user_X 6)
     (fetchMessages (Some [msg 1 7 user_X 4, msg 2 7 user_Y 5]) chat_init)) =
     [msg 1 7 user_X 4, msg 2 7 user_Y 5, msg 3 7 user_X 6] \<and>
   messages (on_insert (msg 3 7 user_X 6) (on_insert (msg 2 7 user_Y 5)
     (fetchMessages (Some [msg 1 7 user_X 4, msg 2 7 user_Y 5]) chat_init))) =
     [msg 1 7 user_X 4, msg 2 7 user_Y 5, msg 3 7 user_X 6]"
proof -
  have dup: "list_ex (\<lambda>m. msg_id m = msg_id (msg 2 7 user_Y 5))
     (messages (fetchMessages (Some [msg 1 7 user_X 4, msg 2 7 user_Y 5]) chat_init))"
    by (simp add: fetchMessages_def)
  have new: "\<not> list_ex (\<lambda>m. msg_id m = msg_id (msg 3 7 user_X 6))
     (messages (fetchMessages (Some [msg 1 7 user_X 4, msg 2 7 user_Y 5]) chat_init))"
    by (simp add: fetchMessages_def)
  have ne: "msg_id (msg 3 7 user_X 6) \<noteq> msg_id (msg 1 7 user_X 4)"
    "msg_id (msg 3 7 user_X 6) \<noteq> msg_id (msg 2 7 user_Y 5)"
    by simp_all
  have fetched: "messages (fetchMessages (Some [msg 1 7 user_X 4, msg 2 7 user_Y 5]) chat_init) =
     [msg 1 7 user_X 4, msg 2 7 user_Y 5]"
    by (simp add: fetchMessages_def)
  from realtime_event_deduplicated [where e = "msg 2 7 user_Y 5"
      and c = "fetchMessages (Some [msg 1 7 user_X 4, msg 2 7 user_Y 5]) chat_init"
      and ?e2.0 = "msg 2 7 user_Y 5" and ?m2.0 = "msg 2 7 user_Y 5" and ?m3.0 = "msg 3 7 user_X 6"
      and ?m1.0 = "msg 1 7 user_X 4" and ?c0.0 = chat_init] dup ne
  have a: "messages (on_insert (msg 2 7 user_Y 5)
     (fetchMessages (Some [msg 1 7 user_X 4, msg 2 7 user_Y 5]) chat_init)) =
     messages (fetchMessages (Some [msg 1 7 user_X 4, msg 2 7 user_Y 5]) chat_init)"
    and c: "messages (on_insert (msg 3 7 user_X 6) (on_insert (msg 2 7 user_Y 5)
     (fetchMessages (Some [msg 1 7 user_X 4, msg 2 7 user_Y 5]) chat_init))) =
     [msg 1 7 user_X 4, msg 2 7 user_Y 5, msg 3 7 user_X 6]"
    by blast+
  from realtime_event_deduplicated [where e = "msg 3 7 user_X 6"
      and c = "fetchMessages (Some [msg 1 7 user_X 4, msg 2 7 user_Y 5]) chat_init"] new
  have b: "messages (on_insert (msg 3 7 user_X 6)
     (fetchMessages (Some [msg 1 7 user_X 4, msg 2 7 user_Y 5]) chat_init)) =
     messages (fetchMessages (Some [msg 1 7 user_X 4, msg 2 7 user_Y 5]) chat_init) @
       [msg 3 7 user_X 6]"
    by blast
  from dup new ne a b c show ?thesis unfolding fetched by simp
qed

subsection \<open>The order of the displayed messages\<close>

text \<open>
  C7, as stated: the displayed messages are always sorted by timestamp and then id. They
  are not: an event is appended where the list ends, also when its message is older than
  the last one shown.
\<close>

theorem display_ordered_counterexample:
  "\<not> display_ordered (messages
      (on_insert (msg 1 7 user_X 3)
        (fetchMessages
           (Some (select_messages
              [msg 2 7 user_Y 5] 7))
           chat_init)))"
  by (simp add: display_ordered_def on_insert_def fetchMessages_def select_messages_def chat_init_def)

text \<open>
  C7, amended. After the initial fetch the displayed messages are sorted ascending by
  timestamp; the query orders by \<^verbatim>\<open>created_at\<close> alone. A realtime event is appended
  without sorting, so a sorted list stays sorted by timestamp exactly when the event is
  dropped as a duplicate, the list was empty, or the event's timestamp is not below that
  of the last message shown.
\<close>

theorem display_order_by_timestamp_only:
  "sorted (map created_at (messages (fetchMessages (Some (select_messages tbl i)) c0))) \<and>
   (sorted (map created_at (messages c)) \<longrightarrow>
      (sorted (map created_at (messages (on_insert e c))) \<longleftrightarrow>
         list_ex (\<lambda>m. msg_id m = msg_id e) (messages c) \<or> messages c = [] \<or>
         created_at (last (messages c)) \<le> created_at e))"
proof -
  have a: "sorted (map created_at (messages (fetchMessages (Some (select_messages tbl i)) c0)))"
    by (simp add: fetchMessages_def select_messages_def)
  have b: "sorted (map created_at (messages (on_insert e c))) \<longleftrightarrow>
         list_ex (\<lambda>m. msg_id m = msg_id e) (messages c) \<or> messages c = [] \<or>
         created_at (last (messages c)) \<le> created_at e"
    if s: "sorted (map created_at (messages c))"
  proof (cases "messages c = []")
    case True
    then show ?thesis by (simp add: on_insert_def)
  next
    case False
    then show ?thesis
      using s sorted_snoc_last [OF s, of "created_at e"]
      by (simp add: on_insert_def last_map)
  qed
  from a b show ?thesis by blast
qed

theorem display_order_by_timestamp_only_witness:
  "sorted (map created_at (messages
     (fetchMessages (Some (select_messages [msg 2 7 user_Y 5, msg 1 7 user_X 4, msg 9 8 user_X 1] 7))
        chat_init))) \<and>
   messages (fetchMessages
       (Some (select_messages [msg 2 7 user_Y 5, msg 1 7 user_X 4, msg 9 8 user_X 1] 7))
       chat_init) = [msg 1 7 user_X 4, msg 2 7 user_Y 5] \<and>
   sorted (map created_at (messages (on_insert (msg 3 7 user_X 6)
     (fetchMessages (Some (select_messages [msg 2 7 user_Y 5, msg 1 7 user_X 4, msg 9 8 user_X 1] 7))
        chat_init)))) \<and>
   \<not> sorted (map created_at (messages (on_insert (msg 3 7 user_X 3)
     (fetchMessages (Some (select_messages [msg 2 7 user_Y 5, msg 1 7 user_X 4, msg 9 8 user_X 1] 7))
        chat_init))))"
proof -
  have fetched: "messages (fetchMessages
       (Some (select_messages [msg 2 7 user_Y 5, msg 1 7 user_X 4, msg 9 8 user_X 1] 7))
       chat_init) = [msg 1 7 user_X 4, msg 2 7 user_Y 5]"
    by (simp add: fetchMessages_def select_messages_def)
  note t1 = display_order_by_timestamp_only [where
      tbl = "[msg 2 7 user_Y 5, msg 1 7 user_X 4, msg 9 8 user_X 1]" and i = 7
      and ?c0.0 = chat_init and c = "fetchMessages
       (Some (select_messages [msg 2 7 user_Y 5, msg 1 7 user_X 4, msg 9 8 user_X 1] 7))
       chat_init" and e = "msg 3 7 user_X 6"]
  note t2 = display_order_by_timestamp_only [where
      tbl = "[msg 2 7 user_Y 5, msg 1 7 user_X 4, msg 9 8 user_X 1]" and i = 7
      and ?c0.0 = chat_init and c = "fetchMessages
       (Some (select_messages [msg 2 7 user_Y 5, msg 1 7 user_X 4, msg 9 8 user_X 1] 7))
       chat_init" and e = "msg 3 7 user_X 3"]
  from t1 have s0: "sorted (map created_at (messages
     (fetchMessages (Some (select_messages [msg 2 7 user_Y 5, msg 1 7 user_X 4, msg 9 8 user_X 1] 7))
        chat_init)))" by blast
  from t1 s0 have s1: "sorted (map created_at (messages (on_insert (msg 3 7 user_X 6)
     (fetchMessages (Some (select_messages [msg 2 7 user_Y 5, msg 1 7 user_X 4, msg 9 8 user_X 1] 7))
        chat_init))))"
    unfolding fetched by simp
  from t2 s0 have s2: "\<not> sorted (map created_at (messages (on_insert (msg 3 7 user_X 3)
     (fetchMessages (Some (select_messages [msg 2 7 user_Y 5, msg 1 7 user_X 4, msg 9 8 user_X 1] 7))
        chat_init))))"
    unfolding fetched by simp
  from s0 fetched s1 s2 show ?thesis by blast
qed

subsection \<open>A failed send\<close>

text \<open>
  C8. When \<^verbatim>\<open>sendMessage\<close> gets as far as the insert and the insert fails, by an error in
  the reply or by an exception, the input field holds the draft again (the text that was
  submitted: the draft without surrounding white space), the message list is as it was,
  the session is no longer sending, and after the log entries the failure has gone to
  \<^verbatim>\<open>captureException\<close>, which hands it to Sentry (to the console in a development build).
\<close>

theorem failed_send_restores_draft:
  assumes usr: "user e = Some uid" and idle: "\<not> sending c"
    and draft: "trim (newMessage c) \<noteq> []"
    and valid: "messageSchema (trim (newMessage c)) (route_id e)"
    and budget: "allowed (fst (check (limits w) (date_now e) (''message'', uid) MESSAGE))"
    and failed: "outcome e = error_returned err \<or> outcome e = thrown err"
  shows "newMessage (fst (sendMessage e (c, w))) = trim (newMessage c) \<and>
         messages (fst (sendMessage e (c, w))) = messages c \<and>
         \<not> sending (fst (sendMessage e (c, w))) \<and>
         trace (snd (sendMessage e (c, w))) =
           trace w @ [Log Info ''Sending message'', Log Err ''Failed to send message'',
                      if dev e then ConsoleError err ''send-message''
                      else SentryCaptureException err ''send-message'']"
  using assms
  by (auto simp: sendMessage_def send_failed_def captureException_def emit_def Let_def
      split: prod.splits)

theorem failed_send_restores_draft_witness:
  "trim [0x20, 0x68, 0x69, 0x20] = [0x68, 0x69] \<and>
   messageSchema [0x68, 0x69] (Some 7) \<and>
   allowed (fst (check Map.empty 1000 (''message'', user_X) MESSAGE)) \<and>
   newMessage (fst (sendMessage
     \<lparr>user = Some user_X, route_id = Some 7, date_now = 1000, dev = False,
      outcome = error_returned (PostgrestError foreign_key_violation)\<rparr>
     (\<lparr>messages = [msg 1 7 user_Y 4], newMessage = [0x20, 0x68, 0x69, 0x20], loading = False,
       sending = False\<rparr>,
      \<lparr>limits = Map.empty, trace = []\<rparr>))) = [0x68, 0x69] \<and>
   messages (fst (sendMessage
     \<lparr>user = Some user_X, route_id = Some 7, date_now = 1000, dev = False,
      outcome = error_returned (PostgrestError foreign_key_violation)\<rparr>
     (\<lparr>messages = [msg 1 7 user_Y 4], newMessage = [0x20, 0x68, 0x69, 0x20], loading = False,
       sending = False\<rparr>,
      \<lparr>limits = Map.empty, trace = []\<rparr>))) = [msg 1 7 user_Y 4] \<and>
   trace (snd (sendMessage
     \<lparr>user = Some user_X, route_id = Some 7, date_now = 1000, dev = False,
      outcome = error_returned (PostgrestError foreign_key_violation)\<rparr>
     (\<lparr>messages = [msg 1 7 user_Y 4], newMessage = [0x20, 0x68, 0x69, 0x20], loading = False,
       sending = False\<rparr>,
      \<lparr>limits = Map.empty, trace = []\<rparr>))) =
     [Log Info ''Sending message'', Log Err ''Failed to send message'',
      SentryCaptureException (PostgrestError foreign_key_violation) ''send-message'']"
proof -
  have tr: "trim [0x20, 0x68, 0x69, 0x20] = [0x68, 0x69]"
    by (simp add: trim_def is_white_space_def)
  have valid: "messageSchema [0x68, 0x69] (Some 7)"
    by (simp add: messageSchema_def)
  have budget: "allowed (fst (check Map.empty 1000 (''message'', user_X) MESSAGE))"
    by (simp add: check_def)
  from failed_send_restores_draft [where e =
     "\<lparr>user = Some user_X, route_id = Some 7, date_now = 1000, dev = False,
      outcome = error_returned (PostgrestError foreign_key_violation)\<rparr>" and uid = user_X
     and c = "\<lparr>messages = [msg 1 7 user_Y 4], newMessage = [0x20, 0x68, 0x69, 0x20],
       loading = False, sending = False\<rparr>"
     and w = "\<lparr>limits = Map.empty, trace = []\<rparr>"
     and err = "PostgrestError foreign_key_violation"]
     tr valid budget
  show ?thesis by simp
qed

subsection \<open>The unread count\<close>

text \<open>
  C10, as stated: for every match the aggregator produces, the unread count is the number
  of message rows of that match sent by the other participant. \<^verbatim>\<open>fetchMatches\<close> does not
  look at the error of its messages query: when that query fails the matches are listed
  all the same, each with unread count 0. With the tables below the count reported is 2
  when the query returns its rows and 0 when it fails.
\<close>

theorem unread_count_is_total_from_peer_counterexample:
  "map unreadCount (fetchMatches (Some user_X)
     (Some (select_matches (snd (insert_swipe fix_matches_sql
      (snd (insert_swipe fix_matches_sql (init_db [blank_profile user_X, blank_profile user_Y])
         (swipe_by user_Y user_X True 1)))
      (swipe_by user_X user_Y True 2))) user_X)) None
     (Some (select_messages_in [msg 1 5 user_Y 10, msg 2 5 user_X 11, msg 3 5 user_Y 12]
        (map m_id (select_matches (snd (insert_swipe fix_matches_sql
      (snd (insert_swipe fix_matches_sql (init_db [blank_profile user_X, blank_profile user_Y])
         (swipe_by user_Y user_X True 1)))
      (swipe_by user_X user_Y True 2))) user_X)))) []) = [2] \<and>
   map unreadCount (fetchMatches (Some user_X)
     (Some (select_matches (snd (insert_swipe fix_matches_sql
      (snd (insert_swipe fix_matches_sql (init_db [blank_profile user_X, blank_profile user_Y])
         (swipe_by user_Y user_X True 1)))
      (swipe_by user_X user_Y True 2))) user_X)) None None []) = [0]"
proof -
  have ev: "snd (insert_swipe fix_matches_sql
      (snd (insert_swipe fix_matches_sql (init_db [blank_profile user_X, blank_profile user_Y])
         (swipe_by user_Y user_X True 1)))
      (swipe_by user_X user_Y True 2)) =
     \<lparr>profiles = [blank_profile user_X, blank_profile user_Y],
      swipes = [new_swipe (swipe_by user_Y user_X True 1), new_swipe (swipe_by user_X user_Y True 2)],
      matches = [\<lparr>m_id = 5, user1_id = user_X, user2_id = user_Y, m_created_at = 2\<rparr>]\<rparr>"
    by (simp add: scenario_eval)
  have sel: "select_matches \<lparr>profiles = [blank_profile user_X, blank_profile user_Y],
      swipes = [new_swipe (swipe_by user_Y user_X True 1), new_swipe (swipe_by user_X user_Y True 2)],
      matches = [\<lparr>m_id = 5, user1_id = user_X, user2_id = user_Y, m_created_at = 2\<rparr>]\<rparr> user_X =
     [\<lparr>m_id = 5, user1_id = user_X, user2_id = user_Y, m_created_at = 2,
       profile1 = embed [blank_profile user_X, blank_profile user_Y] user_X,
       profile2 = embed [blank_profile user_X, blank_profile user_Y] user_Y\<rparr>]"
    by (simp add: select_matches_def)
  have msgs: "select_messages_in [msg 1 5 user_Y 10, msg 2 5 user_X 11, msg 3 5 user_Y 12] [5] =
     [msg 3 5 user_Y 12, msg 2 5 user_X 11, msg 1 5 user_Y 10]"
    by (simp add: select_messages_in_def)
  have cnt: "map unreadCount (fetchMatches (Some user_X)
     (Some [\<lparr>m_id = 5, user1_id = user_X, user2_id = user_Y, m_created_at = 2,
       profile1 = embed [blank_profile user_X, blank_profile user_Y] user_X,
       profile2 = embed [blank_profile user_X, blank_profile user_Y] user_Y\<rparr>])
     None (Some [msg 3 5 user_Y 12, msg 2 5 user_X 11, msg 1 5 user_Y 10]) []) = [2]"
    by (simp add: fetchMatches_def matchesWithProfiles_def group_messages_def group_message_def
        otherUserId_def or_zero_def)
  have zero: "map unreadCount (fetchMatches (Some user_X)
     (Some [\<lparr>m_id = 5, user1_id = user_X, user2_id = user_Y, m_created_at = 2,
       profile1 = embed [blank_profile user_X, blank_profile user_Y] user_X,
       profile2 = embed [blank_profile user_X, blank_profile user_Y] user_Y\<rparr>])
     None None []) = [0]"
    by (simp add: fetchMatches_def matchesWithProfiles_def group_messages_def or_zero_def)
  show ?thesis unfolding ev sel by (simp only: list.map match.simps msgs cnt zero simp_thms)
qed

text \<open>
  C10, amended. For a reachable state of the data layer and any message table: when the
  messages query of \<^verbatim>\<open>fetchMatches\<close> returns its rows, every entry put on the list of a
  user reports as its unread count the number of all message rows of that match sent by
  the other participant; that participant is not the user, so the user's own messages
  are not counted, and nothing is subtracted. When the messages query fails, every match
  is listed all the same and reports the unread count 0.
\<close>

theorem unread_count_is_total_from_peer:
  assumes reach: "reachable d"
  shows "list_all (\<lambda>v. unreadCount v =
              length (filter (\<lambda>msg. match_id msg = m_id v \<and> sender_id msg = peer uid v) tbl) \<and>
            peer uid v \<noteq> uid)
     (fetchMatches (Some uid) (Some (select_matches d uid)) None
        (Some (select_messages_in tbl (map m_id (select_matches d uid)))) shown) \<and>
   map m_id (fetchMatches (Some uid) (Some (select_matches d uid)) None None shown) =
     map m_id (select_matches d uid) \<and>
   list_all (\<lambda>v. unreadCount v = 0)
     (fetchMatches (Some uid) (Some (select_matches d uid)) None None shown)"
proof -
  let ?data = "select_matches d uid"
  let ?msgs = "select_messages_in tbl (map m_id ?data)"
  have pk: "distinct (map m_id ?data)"
    using reachable_primary_key [OF reach] by (rule select_matches_ids)
  have canon: "\<forall>x\<in>set (matches d). user1_id x < user2_id x"
    using reachable_canonical [OF reach] by (simp add: list_all_iff)
  have "unreadCount v =
          length (filter (\<lambda>msg. match_id msg = m_id v \<and> sender_id msg = peer uid v) tbl) \<and>
        peer uid v \<noteq> uid"
    if v: "v \<in> set (matchesWithProfiles uid ?data (Some ?msgs))" for v
  proof -
    from matchesWithProfiles_unread [OF pk v] obtain m where m: "m \<in> set ?data"
      "m_id v = m_id m" "user1_id v = user1_id m" "user2_id v = user2_id m"
      "unreadCount v = length (filter (\<lambda>msg. match_id msg = m_id m \<and>
                sender_id msg = (if user1_id m = uid then user2_id m else user1_id m)) ?msgs)"
      by blast
    have k: "m_id m \<in> set (map m_id ?data)" using m(1) by simp
    have cnt: "unreadCount v = length (filter (\<lambda>msg. match_id msg = m_id v \<and>
                sender_id msg = peer uid v) tbl)"
      using m length_filter_select_messages_in [OF k, of
          "\<lambda>msg. sender_id msg = (if user1_id m = uid then user2_id m else user1_id m)" tbl]
      by (simp add: peer_def)
    from select_matches_rows [OF m(1)] obtain x where x: "x \<in> set (matches d)"
      "user1_id m = user1_id x" "user2_id m = user2_id x" by blast
    with canon have "user1_id m < user2_id m" by simp
    then have "peer uid v \<noteq> uid"
      using m(3) m(4) by (auto simp: peer_def)
    with cnt show ?thesis by simp
  qed
  then have served: "list_all (\<lambda>v. unreadCount v =
              length (filter (\<lambda>msg. match_id msg = m_id v \<and> sender_id msg = peer uid v) tbl) \<and>
            peer uid v \<noteq> uid)
     (fetchMatches (Some uid) (Some ?data) None (Some ?msgs) shown)"
    by (simp add: fetchMatches_def list_all_iff)
  have listed: "map m_id (fetchMatches (Some uid) (Some ?data) None None shown) = map m_id ?data"
    by (simp add: fetchMatches_def matchesWithProfiles_def group_messages_def comp_def)
  have failed: "list_all (\<lambda>v. unreadCount v = 0)
     (fetchMatches (Some uid) (Some ?data) None None shown)"
    by (simp add: fetchMatches_def matchesWithProfiles_def group_messages_def or_zero_def
        list_all_iff)
  from served listed failed show ?thesis by blast
qed

theorem unread_count_is_total_from_peer_witness:
  "reachable (snd (insert_swipe fix_matches_sql
      (snd (insert_swipe fix_matches_sql (init_db [blank_profile user_X, blank_profile user_Y])
         (swipe_by user_Y user_X True 1)))
      (swipe_by user_X user_Y True 2))) \<and>
   map unreadCount (fetchMatches (Some user_X)
     (Some (select_matches (snd (insert_swipe fix_matches_sql
      (snd (insert_swipe fix_matches_sql (init_db [blank_profile user_X, blank_profile user_Y])
         (swipe_by user_Y user_X True 1)))
      (swipe_by user_X user_Y True 2))) user_X)) None
     (Some (select_messages_in [msg 1 5 user_Y 10, msg 2 5 user_X 11, msg 3 5 user_Y 12]
        (map m_id (select_matches (snd (insert_swipe fix_matches_sql
      (snd (insert_swipe fix_matches_sql (init_db [blank_profile user_X, blank_profile user_Y])
         (swipe_by user_Y user_X True 1)))
      (swipe_by user_X user_Y True 2))) user_X)))) []) = [2] \<and>
   list_all (\<lambda>v. unreadCount v =
       length (filter (\<lambda>m. match_id m = m_id v \<and> sender_id m = peer user_X v)
         [msg 1 5 user_Y 10, msg 2 5 user_X 11, msg 3 5 user_Y 12]) \<and> peer user_X v \<noteq> user_X)
     (fetchMatches (Some user_X)
     (Some (select_matches (snd (insert_swipe fix_matches_sql
      (snd (insert_swipe fix_matches_sql (init_db [blank_profile user_X, blank_profile user_Y])
         (swipe_by user_Y user_X True 1)))
      (swipe_by user_X user_Y True 2))) user_X)) None
     (Some (select_messages_in [msg 1 5 user_Y 10, msg 2 5 user_X 11, msg 3 5 user_Y 12]
        (map m_id (select_matches (snd (insert_swipe fix_matches_sql
      (snd (insert_swipe fix_matches_sql (init_db [blank_profile user_X, blank_profile user_Y])
         (swipe_by user_Y user_X True 1)))
      (swipe_by user_X user_Y True 2))) user_X)))) []) \<and>
   list_all (\<lambda>v. unreadCount v = 0)
     (fetchMatches (Some user_X)
     (Some (select_matches (snd (insert_swipe fix_matches_sql
      (snd (insert_swipe fix_matches_sql (init_db [blank_profile user_X, blank_profile user_Y])
         (swipe_by user_Y user_X True 1)))
      (swipe_by user_X user_Y True 2))) user_X)) None None [])"
proof -
  have reach: "reachable (snd (insert_swipe fix_matches_sql
      (snd (insert_swipe fix_matches_sql (init_db [blank_profile user_X, blank_profile user_Y])
         (swipe_by user_Y user_X True 1)))
      (swipe_by user_X user_Y True 2)))"
    by (intro reach_swipe reach_init)
  have ev: "snd (insert_swipe fix_matches_sql
      (snd (insert_swipe fix_matches_sql (init_db [blank_profile user_X, blank_profile user_Y])
         (swipe_by user_Y user_X True 1)))
      (swipe_by user_X user_Y True 2)) =
     \<lparr>profiles = [blank_profile user_X, blank_profile user_Y],
      swipes = [new_swipe (swipe_by user_Y user_X True 1), new_swipe (swipe_by user_X user_Y True 2)],
      matches = [\<lparr>m_id = 5, user1_id = user_X, user2_id = user_Y, m_created_at = 2\<rparr>]\<rparr>"
    by (simp add: scenario_eval)
  have sel: "select_matches \<lparr>profiles = [blank_profile user_X, blank_profile user_Y],
      swipes = [new_swipe (swipe_by user_Y user_X True 1), new_swipe (swipe_by user_X user_Y True 2)],
      matches = [\<lparr>m_id = 5, user1_id = user_X, user2_id = user_Y, m_created_at = 2\<rparr>]\<rparr> user_X =
     [\<lparr>m_id = 5, user1_id = user_X, user2_id = user_Y, m_created_at = 2,
       profile1 = embed [blank_profile user_X, blank_profile user_Y] user_X,
       profile2 = embed [blank_profile user_X, blank_profile user_Y] user_Y\<rparr>]"
    by (simp add: select_matches_def)
  have msgs: "select_messages_in [msg 1 5 user_Y 10, msg 2 5 user_X 11, msg 3 5 user_Y 12] [5] =
     [msg 3 5 user_Y 12, msg 2 5 user_X 11, msg 1 5 user_Y 10]"
    by (simp add: select_messages_in_def)
  have cnt: "map unreadCount (fetchMatches (Some user_X)
     (Some [\<lparr>m_id = 5, user1_id = user_X, user2_id = user_Y, m_created_at = 2,
       profile1 = embed [blank_profile user_X, blank_profile user_Y] user_X,
       profile2 = embed [blank_profile user_X, blank_profile user_Y] user_Y\<rparr>])
     None (Some [msg 3 5 user_Y 12, msg 2 5 user_X 11, msg 1 5 user_Y 10]) []) = [2]"
    by (simp add: fetchMatches_def matchesWithProfiles_def group_messages_def group_message_def
        otherUserId_def or_zero_def)
  have zero: "map unreadCount (fetchMatches (Some user_X)
     (Some [\<lparr>m_id = 5, user1_id = user_X, user2_id = user_Y, m_created_at = 2,
       profile1 = embed [blank_profile user_X, blank_profile user_Y] user_X,
       profile2 = embed [blank_profile user_X, blank_profile user_Y] user_Y\<rparr>])
     None None []) = [0]"
    by (simp add: fetchMatches_def matchesWithProfiles_def group_messages_def or_zero_def)
  have ok: "map unreadCount (fetchMatches (Some user_X)
     (Some (select_matches (snd (insert_swipe fix_matches_sql
      (snd (insert_swipe fix_matches_sql (init_db [blank_profile user_X, blank_profile user_Y])
         (swipe_by user_Y user_X True 1)))
      (swipe_by user_X user_Y True 2))) user_X)) None
     (Some (select_messages_in [msg 1 5 user_Y 10, msg 2 5 user_X 11, msg 3 5 user_Y 12]
        (map m_id (select_matches (snd (insert_swipe fix_matches_sql
      (snd (insert_swipe fix_matches_sql (init_db [blank_profile user_X, blank_profile user_Y])
         (swipe_by user_Y user_X True 1)))
      (swipe_by user_X user_Y True 2))) user_X)))) []) = [2]"
    unfolding ev sel by (simp only: list.map match.simps msgs cnt)
  note inst = unread_count_is_total_from_peer [OF reach, of user_X
      "[msg 1 5 user_Y 10, msg 2 5 user_X 11, msg 3 5 user_Y 12]" "[]"]
  from reach ok inst [THEN conjunct1] inst [THEN conjunct2, THEN conjunct2]
  show ?thesis by (intro conjI)
qed

end
